theory Spec2Isabelle
  imports Main "HOL-Library.AList"
begin

section \<open>Documents of the store\<close>

text \<open>
  The library keeps its data in a document store. A document is a Python dictionary with
  string keys; it is modelled as an association list, the first binding of a key being
  its value. The values are the ones the driver hands to Python for the fields the
  program reads and writes: \<open>None\<close>, booleans, integers, strings, object ids,
  datetimes (microseconds since 0001-01-01T00:00:00), arrays and nested documents.
  Floating-point numbers and binary data are not modelled.
\<close>

datatype val =
    VNull
  | VBool bool
  | VInt int
  | VStr string
  | VOid nat
  | VDate int
  | VArr "val list"
  | VSub "(string \<times> val) list"

type_synonym doc = "(string \<times> val) list"

text \<open>
  The store keeps a datetime in whole milliseconds: the driver drops the microseconds
  below the millisecond from every datetime it sends, in a document to store as in the
  operand of a query.
\<close>

definition tronca_ms :: "int \<Rightarrow> int" where
  "tronca_ms t = t - t mod 1000"

primrec bson :: "val \<Rightarrow> val" where
  "bson VNull = VNull"
| "bson (VBool b) = VBool b"
| "bson (VInt i) = VInt i"
| "bson (VStr s) = VStr s"
| "bson (VOid n) = VOid n"
| "bson (VDate t) = VDate (tronca_ms t)"
| "bson (VArr xs) = VArr (map bson xs)"
| "bson (VSub d) = VSub (map (map_prod id bson) d)"

definition codifica :: "doc \<Rightarrow> doc" where
  "codifica d = map (map_prod id bson) d"

text \<open>The exceptions the three operations can meet inside their \<open>try\<close> blocks.\<close>

datatype exn =
    InvalidId string
  | TypeError
  | KeyError string
  | OverflowError
  | DuplicateKeyError
  | WriteError
  | ConnectionFailure

text \<open>\<open>d.get(k)\<close>: the value of the key, \<open>None\<close> when the key is missing.\<close>

definition campo :: "doc \<Rightarrow> string \<Rightarrow> val option" where
  "campo d k = map_of d k"

text \<open>Python's truth value of an object, as \<open>not x\<close> and \<open>if x\<close> read it.\<close>

fun truthy :: "val \<Rightarrow> bool" where
  "truthy VNull = False"
| "truthy (VBool b) = b"
| "truthy (VInt i) = (i \<noteq> 0)"
| "truthy (VStr s) = (s \<noteq> [])"
| "truthy (VOid n) = True"
| "truthy (VDate t) = True"
| "truthy (VArr xs) = (xs \<noteq> [])"
| "truthy (VSub d) = (d \<noteq> [])"

definition get_truthy :: "doc \<Rightarrow> string \<Rightarrow> bool" where
  "get_truthy d k = (case campo d k of None \<Rightarrow> False | Some v \<Rightarrow> truthy v)"

text \<open>
  Python's \<open>x <= n\<close> and \<open>x > n\<close> against an integer literal: integers compare,
  booleans compare as 0 and 1, every other value raises \<open>TypeError\<close>.
\<close>

fun py_le :: "val \<Rightarrow> int \<Rightarrow> exn + bool" where
  "py_le (VInt i) n = Inr (i \<le> n)"
| "py_le (VBool b) n = Inr ((if b then 1 else 0) \<le> n)"
| "py_le v n = Inl TypeError"

fun py_gt :: "val \<Rightarrow> int \<Rightarrow> exn + bool" where
  "py_gt (VInt i) n = Inr (i > n)"
| "py_gt (VBool b) n = Inr ((if b then 1 else 0) > n)"
| "py_gt v n = Inl TypeError"

subsection \<open>Object ids\<close>

text \<open>
  \<open>ObjectId(s)\<close> of the driver's library: a string of 24 hexadecimal digits is the
  id with that value, any other string raises \<open>InvalidId\<close>. (The library also takes a
  string of 24 characters in which whitespace separates pairs of hexadecimal digits, and
  makes an id of fewer than 12 bytes from it; such ids are outside the model, which
  rejects these strings.)
\<close>

definition cifra_hex :: "char \<Rightarrow> nat option" where
  "cifra_hex c =
     (let n = (of_char c :: nat) in
      if 48 \<le> n \<and> n \<le> 57 then Some (n - 48)
      else if 97 \<le> n \<and> n \<le> 102 then Some (n - 87)
      else if 65 \<le> n \<and> n \<le> 70 then Some (n - 55)
      else None)"

definition ObjectId :: "string \<Rightarrow> exn + nat" where
  "ObjectId s =
     (if length s = 24 \<and> list_all (\<lambda>c. cifra_hex c \<noteq> None) s
      then Inr (foldl (\<lambda>a c. 16 * a + (case cifra_hex c of None \<Rightarrow> 0 | Some h \<Rightarrow> h)) 0 s)
      else Inl (InvalidId s))"

subsection \<open>Datetimes\<close>

text \<open>
  \<open>timedelta(days=g)\<close> raises \<open>OverflowError\<close> beyond 999999999 days in either
  direction, and \<open>datetime + timedelta\<close> raises it when the sum leaves the years
  1 to 9999.
\<close>

definition giorno_us :: int where
  "giorno_us = 86400000000"

definition datetime_sup :: int where
  "datetime_sup = 3652059 * giorno_us"

definition piu_giorni :: "int \<Rightarrow> int \<Rightarrow> exn + int" where
  "piu_giorni t g =
     (if g < - 999999999 \<or> 999999999 < g then Inl OverflowError
      else if t + g * giorno_us < 0 \<or> datetime_sup \<le> t + g * giorno_us then Inl OverflowError
      else Inr (t + g * giorno_us))"

section \<open>The document store\<close>

subsection \<open>Query filters\<close>

text \<open>
  The filters the program builds: equality with a value, \<open>$lt\<close> against a datetime, and
  the \<open>$text\<close> search. Equality follows the store: a missing field equals \<open>null\<close>, an
  array field matches when it is the value or holds it. \<open>$lt\<close> against a datetime
  matches datetimes only. The operands reach the store as the driver encodes them, so
  datetimes are compared in whole milliseconds.
\<close>

datatype cond = CEq val | CLtDate int | CText string

type_synonym filtro = "(string \<times> cond) list"

definition mongo_eq :: "val option \<Rightarrow> val \<Rightarrow> bool" where
  "mongo_eq x v =
     (case x of
        None \<Rightarrow> v = VNull
      | Some (VArr xs) \<Rightarrow> VArr xs = v \<or> v \<in> set xs
      | Some y \<Rightarrow> y = v)"

definition mongo_lt_date :: "val option \<Rightarrow> int \<Rightarrow> bool" where
  "mongo_lt_date x t =
     (case x of
        Some (VDate a) \<Rightarrow> tronca_ms a < tronca_ms t
      | Some (VArr xs) \<Rightarrow>
          list_ex (\<lambda>y. case y of VDate a \<Rightarrow> tronca_ms a < tronca_ms t | _ \<Rightarrow> False) xs
      | _ \<Rightarrow> False)"

definition soddisfa_cond :: "(string \<Rightarrow> doc \<Rightarrow> bool) \<Rightarrow> doc \<Rightarrow> string \<times> cond \<Rightarrow> bool" where
  "soddisfa_cond txt d kc =
     (case snd kc of
        CEq v \<Rightarrow> mongo_eq (campo d (fst kc)) (bson v)
      | CLtDate t \<Rightarrow> mongo_lt_date (campo d (fst kc)) t
      | CText q \<Rightarrow> txt q d)"

definition soddisfa :: "(string \<Rightarrow> doc \<Rightarrow> bool) \<Rightarrow> filtro \<Rightarrow> doc \<Rightarrow> bool" where
  "soddisfa txt f d = list_all (soddisfa_cond txt d) f"

subsection \<open>The state\<close>

text \<open>
  The state of the world an operation runs in: the collections of the database, the
  text search of the store (a relation between a search string and a document, fixed by
  the store's text index), the outcome of each coming round trip to the store (an
  exhausted list means every further round trip succeeds), the object id the driver
  generates next, and the error lines logged so far. \<open>storia\<close> is a ghost field: it
  records the database after every write the store applied, in order.
\<close>

datatype collezione = Autori | Categorie | Libri | Utenti | Prestiti | Prenotazioni

datatype rete = Riuscita | Rifiutata | RispostaPersa

record world =
  db :: "collezione \<Rightarrow> doc list"
  testo :: "string \<Rightarrow> doc \<Rightarrow> bool"
  guasti :: "rete list"
  prossimo_id :: nat
  storia :: "(collezione \<Rightarrow> doc list) list"
  registro :: "(string \<times> exn) list"

definition chiamata :: "world \<Rightarrow> rete \<times> world" where
  "chiamata w =
     (case guasti w of
        [] \<Rightarrow> (Riuscita, w)
      | g # gs \<Rightarrow> (g, w\<lparr>guasti := gs\<rparr>))"

definition logger_error :: "string \<Rightarrow> exn \<Rightarrow> world \<Rightarrow> world" where
  "logger_error m e w = w\<lparr>registro := registro w @ [(m, e)]\<rparr>"

definition scrivi :: "collezione \<Rightarrow> doc list \<Rightarrow> world \<Rightarrow> world" where
  "scrivi c ds w =
     w\<lparr>db := (db w)(c := ds), storia := storia w @ [(db w)(c := ds)]\<rparr>"

subsection \<open>Reads\<close>

definition find_one :: "collezione \<Rightarrow> filtro \<Rightarrow> world \<Rightarrow> (exn + doc option) \<times> world" where
  "find_one c f w =
     (case chiamata w of
        (Riuscita, w1) \<Rightarrow> (Inr (List.find (soddisfa (testo w1) f) (db w1 c)), w1)
      | (_, w1) \<Rightarrow> (Inl ConnectionFailure, w1))"

definition count_documents :: "collezione \<Rightarrow> filtro \<Rightarrow> world \<Rightarrow> (exn + int) \<times> world" where
  "count_documents c f w =
     (case chiamata w of
        (Riuscita, w1) \<Rightarrow> (Inr (int (length (filter (soddisfa (testo w1) f) (db w1 c)))), w1)
      | (_, w1) \<Rightarrow> (Inl ConnectionFailure, w1))"

subsection \<open>Writes\<close>

text \<open>
  \<open>insert_one\<close>: the driver gives a document without \<open>_id\<close> a fresh object id and
  sends the document encoded, its datetimes cut to whole milliseconds. The
  store refuses a document whose \<open>_id\<close> is already in the collection. A round trip
  can fail before the store applies the write (\<open>Rifiutata\<close>) or after it, the
  acknowledgement being lost (\<open>RispostaPersa\<close>); both raise in the caller.
\<close>

definition insert_one :: "collezione \<Rightarrow> doc \<Rightarrow> world \<Rightarrow> (exn + val) \<times> world" where
  "insert_one c d w =
     (let (i, d1, w0) =
            (case campo d ''_id'' of
               Some v \<Rightarrow> (v, d, w)
             | None \<Rightarrow> (VOid (prossimo_id w), (''_id'', VOid (prossimo_id w)) # d,
                        w\<lparr>prossimo_id := prossimo_id w + 1\<rparr>))
      in case chiamata w0 of
           (Rifiutata, w1) \<Rightarrow> (Inl ConnectionFailure, w1)
         | (g, w1) \<Rightarrow>
             if list_ex (\<lambda>e. campo e ''_id'' = Some (bson i)) (db w1 c)
             then (Inl DuplicateKeyError, w1)
             else if g = RispostaPersa
             then (Inl ConnectionFailure, scrivi c (db w1 c @ [codifica d1]) w1)
             else (Inr i, scrivi c (db w1 c @ [codifica d1]) w1))"

text \<open>
  The update operators the program uses. \<open>$inc\<close> adds to an integer field, creates a
  missing field with the increment as its value, and is refused on any other value;
  \<open>$set\<close> replaces the field or appends it, with the value as the driver encodes it.
  (Stored integers are taken unbounded.)
\<close>

datatype modifica = MInc string int | MSet string val

fun applica :: "modifica \<Rightarrow> doc \<Rightarrow> exn + doc" where
  "applica (MInc k n) d =
     (case campo d k of
        None \<Rightarrow> Inr (AList.update k (VInt n) d)
      | Some (VInt i) \<Rightarrow> Inr (AList.update k (VInt (i + n)) d)
      | Some v \<Rightarrow> Inl WriteError)"
| "applica (MSet k v) d = Inr (AList.update k (bson v) d)"

fun applica_tutte :: "modifica list \<Rightarrow> doc \<Rightarrow> exn + doc" where
  "applica_tutte [] d = Inr d"
| "applica_tutte (m # ms) d =
     (case applica m d of Inl e \<Rightarrow> Inl e | Inr d1 \<Rightarrow> applica_tutte ms d1)"

text \<open>\<open>update_one\<close> changes the first document the filter matches, and nothing when none does.\<close>

fun aggiorna_primo :: "(doc \<Rightarrow> bool) \<Rightarrow> (doc \<Rightarrow> exn + doc) \<Rightarrow> doc list \<Rightarrow> exn + doc list" where
  "aggiorna_primo P u [] = Inr []"
| "aggiorna_primo P u (d # ds) =
     (if P d then (case u d of Inl e \<Rightarrow> Inl e | Inr d1 \<Rightarrow> Inr (d1 # ds))
      else (case aggiorna_primo P u ds of Inl e \<Rightarrow> Inl e | Inr ds1 \<Rightarrow> Inr (d # ds1)))"

definition update_one :: "collezione \<Rightarrow> filtro \<Rightarrow> modifica list \<Rightarrow> world \<Rightarrow> (exn + unit) \<times> world" where
  "update_one c f ms w =
     (case chiamata w of
        (Rifiutata, w1) \<Rightarrow> (Inl ConnectionFailure, w1)
      | (g, w1) \<Rightarrow>
          (case aggiorna_primo (soddisfa (testo w1) f) (applica_tutte ms) (db w1 c) of
             Inl e \<Rightarrow> (Inl e, w1)
           | Inr ds \<Rightarrow>
               if g = RispostaPersa then (Inl ConnectionFailure, scrivi c ds w1)
               else (Inr (), scrivi c ds w1)))"

text \<open>
  The aggregation stages the program uses. \<open>$lookup\<close> joins each document with the
  documents of another collection whose foreign field equals its local field (or one of
  the elements of an array local field; a missing local field counts as \<open>null\<close>).
  \<open>$project\<close> is the one projection of the book search. \<open>$group\<close> counts the documents
  per value of a field, \<open>$sort\<close> orders by that count, largest first. The store fixes no
  order among groups and among equal counts: the model takes the groups in the order of
  the last document of each and keeps that order among equal counts.
\<close>

datatype stadio =
    SMatch filtro
  | SLookup collezione string string string
  | SProjectLibro
  | SGroupCount string
  | SSortCountDesc
  | SLimit nat

definition lookup :: "doc list \<Rightarrow> string \<Rightarrow> string \<Rightarrow> string \<Rightarrow> doc \<Rightarrow> doc" where
  "lookup stranieri locale straniero come d =
     (let vs = (case campo d locale of None \<Rightarrow> [VNull] | Some (VArr xs) \<Rightarrow> xs | Some v \<Rightarrow> [v])
      in AList.update come
           (VArr (map VSub (filter (\<lambda>f. list_ex (mongo_eq (campo f straniero)) vs) stranieri))) d)"

definition percorso :: "doc \<Rightarrow> string \<Rightarrow> string \<Rightarrow> val list" where
  "percorso d a k =
     (case campo d a of
        Some (VArr xs) \<Rightarrow>
          concat (map (\<lambda>x. case x of
                              VSub s \<Rightarrow> (case campo s k of None \<Rightarrow> [] | Some v \<Rightarrow> [v])
                            | _ \<Rightarrow> []) xs)
      | _ \<Rightarrow> [])"

definition includi :: "string list \<Rightarrow> doc \<Rightarrow> doc" where
  "includi ks d = concat (map (\<lambda>k. case campo d k of None \<Rightarrow> [] | Some v \<Rightarrow> [(k, v)]) ks)"

definition project_libro :: "doc \<Rightarrow> doc" where
  "project_libro d =
     includi [''_id'', ''titolo'', ''isbn'', ''anno_pubblicazione'', ''disponibile'',
              ''numero_copie''] d
     @ [(''autori'', VArr (percorso d ''autori_info'' ''cognome''))]
     @ (case percorso d ''categoria_info'' ''nome'' of
          [] \<Rightarrow> []
        | v # vs \<Rightarrow> [(''categoria'', v)])"

definition group_count :: "string \<Rightarrow> doc list \<Rightarrow> doc list" where
  "group_count k ds =
     (let chiavi = map (\<lambda>d. case campo d k of None \<Rightarrow> VNull | Some v \<Rightarrow> v) ds
      in map (\<lambda>v. [(''_id'', v), (''count'', VInt (int (length (filter ((=) v) chiavi))))])
             (remdups chiavi))"

definition sort_count_desc :: "doc list \<Rightarrow> doc list" where
  "sort_count_desc ds =
     sort_key (\<lambda>d. case campo d ''count'' of Some (VInt n) \<Rightarrow> - n | _ \<Rightarrow> 0) ds"

fun esegui :: "(collezione \<Rightarrow> doc list) \<Rightarrow> (string \<Rightarrow> doc \<Rightarrow> bool) \<Rightarrow> stadio \<Rightarrow> doc list \<Rightarrow> doc list" where
  "esegui base txt (SMatch f) ds = filter (soddisfa txt f) ds"
| "esegui base txt (SLookup c locale straniero come) ds =
     map (lookup (base c) locale straniero come) ds"
| "esegui base txt SProjectLibro ds = map project_libro ds"
| "esegui base txt (SGroupCount k) ds = group_count k ds"
| "esegui base txt SSortCountDesc ds = sort_count_desc ds"
| "esegui base txt (SLimit n) ds = take n ds"

definition aggregate :: "collezione \<Rightarrow> stadio list \<Rightarrow> world \<Rightarrow> (exn + doc list) \<times> world" where
  "aggregate c pipeline w =
     (case chiamata w of
        (Riuscita, w1) \<Rightarrow>
          (Inr (foldl (\<lambda>ds s. esegui (db w1) (testo w1) s ds) (db w1 c) pipeline), w1)
      | (_, w1) \<Rightarrow> (Inl ConnectionFailure, w1))"

section \<open>The library's operations\<close>

text \<open>\<open>d[k]\<close>: the value of the key, \<open>KeyError\<close> when the key is missing.\<close>

definition indice :: "doc \<Rightarrow> string \<Rightarrow> exn + val" where
  "indice d k = (case campo d k of None \<Rightarrow> Inl (KeyError k) | Some v \<Rightarrow> Inr v)"

subsection \<open>\<open>cerca_libri\<close>\<close>

text \<open>
  The match conditions of the search, built inside the \<open>try\<close> block. An argument that
  is \<open>None\<close> or the empty string adds no condition. The category is looked up by name;
  its id becomes a condition only when a category was found.
\<close>

definition match_conditions ::
  "string option \<Rightarrow> string option \<Rightarrow> bool option \<Rightarrow> world \<Rightarrow> (exn + filtro) \<times> world" where
  "match_conditions query categoria disponibile w =
     (let m1 = (case query of
                  None \<Rightarrow> []
                | Some q \<Rightarrow> if q = [] then [] else [(''$text'', CText q)]);
          r2 = (case categoria of
                  None \<Rightarrow> (Inr m1, w)
                | Some nome \<Rightarrow>
                    if nome = [] then (Inr m1, w)
                    else (case find_one Categorie [(''nome'', CEq (VStr nome))] w of
                            (Inl e, w1) \<Rightarrow> (Inl e, w1)
                          | (Inr None, w1) \<Rightarrow> (Inr m1, w1)
                          | (Inr (Some cat), w1) \<Rightarrow>
                              if cat = [] then (Inr m1, w1)
                              else (case indice cat ''_id'' of
                                      Inl e \<Rightarrow> (Inl e, w1)
                                    | Inr i \<Rightarrow> (Inr (m1 @ [(''categoria_id'', CEq i)]), w1))))
      in case r2 of
           (Inl e, w1) \<Rightarrow> (Inl e, w1)
         | (Inr m2, w1) \<Rightarrow>
             (case disponibile of
                None \<Rightarrow> (Inr m2, w1)
              | Some b \<Rightarrow> (Inr (m2 @ [(''disponibile'', CEq (VBool b))]), w1)))"

definition pipeline_ricerca :: "filtro \<Rightarrow> stadio list" where
  "pipeline_ricerca m =
     [SMatch m,
      SLookup Autori ''autore_ids'' ''_id'' ''autori_info'',
      SLookup Categorie ''categoria_id'' ''_id'' ''categoria_info'',
      SProjectLibro]"

definition cerca_libri ::
  "string option \<Rightarrow> string option \<Rightarrow> string option \<Rightarrow> bool option \<Rightarrow> world \<Rightarrow> doc list \<times> world" where
  "cerca_libri query categoria autore disponibile w =
     (case match_conditions query categoria disponibile w of
        (Inl e, w1) \<Rightarrow> ([], logger_error ''Errore ricerca libri'' e w1)
      | (Inr m, w1) \<Rightarrow>
          (case aggregate Libri (pipeline_ricerca m) w1 of
             (Inl e, w2) \<Rightarrow> ([], logger_error ''Errore ricerca libri'' e w2)
           | (Inr ds, w2) \<Rightarrow> (ds, w2)))"

subsection \<open>\<open>crea_prestito\<close>\<close>

text \<open>
  The result dictionary: \<open>{'success': True, 'prestito_id': ..., 'data_scadenza': ...}\<close>
  with the id the insert returned and the due datetime (both before their rendering as
  strings), or \<open>{'success': False, 'error': ...}\<close> whose error is one of the two fixed
  messages or \<open>str(e)\<close> of the exception caught.
\<close>

datatype errore = Messaggio string | StrDi exn

datatype esito = Successo val int | Fallimento errore

text \<open>
  \<open>not libro.get('disponibile') or libro.get('numero_copie', 0) <= 0\<close> on a book that
  was found (\<open>not libro\<close> is true of an empty document too).
\<close>

definition non_disponibile :: "doc \<Rightarrow> exn + bool" where
  "non_disponibile libro =
     (if libro = [] \<or> \<not> get_truthy libro ''disponibile'' then Inr True
      else py_le (case campo libro ''numero_copie'' of None \<Rightarrow> VInt 0 | Some v \<Rightarrow> v) 0)"

definition non_valido :: "doc \<Rightarrow> bool" where
  "non_valido utente = (utente = [] \<or> \<not> get_truthy utente ''attivo'')"

definition prestito_doc :: "nat \<Rightarrow> nat \<Rightarrow> int \<Rightarrow> int \<Rightarrow> int \<Rightarrow> doc" where
  "prestito_doc u l t_prestito scadenza t_creato =
     [(''utente_id'', VOid u),
      (''libro_id'', VOid l),
      (''data_prestito'', VDate t_prestito),
      (''data_scadenza'', VDate scadenza),
      (''stato'', VStr ''attivo''),
      (''created_at'', VDate t_creato)]"

text \<open>The two writes: the loan is inserted, then the book is updated.\<close>

definition scritture_prestito :: "nat \<Rightarrow> doc \<Rightarrow> doc \<Rightarrow> int \<Rightarrow> world \<Rightarrow> (exn + esito) \<times> world" where
  "scritture_prestito l libro prestito scadenza w =
     (case insert_one Prestiti prestito w of
        (Inl e, w1) \<Rightarrow> (Inl e, w1)
      | (Inr i, w1) \<Rightarrow>
          (case (case indice libro ''numero_copie'' of Inl e \<Rightarrow> Inl e | Inr v \<Rightarrow> py_gt v 1) of
             Inl e \<Rightarrow> (Inl e, w1)
           | Inr b \<Rightarrow>
               (case update_one Libri [(''_id'', CEq (VOid l))]
                       [MInc ''numero_copie'' (- 1), MSet ''disponibile'' (VBool b)] w1 of
                  (Inl e, w2) \<Rightarrow> (Inl e, w2)
                | (Inr x, w2) \<Rightarrow> (Inr (Successo i scadenza), w2))))"

text \<open>
  The three readings of \<open>datetime.now()\<close> one call makes, in the order of the
  dictionary literal: the loan date, the base of the due date, the creation date.
\<close>

record letture =
  ora_prestito :: int
  ora_scadenza :: int
  ora_creazione :: int

text \<open>The body of the \<open>try\<close> block.\<close>

definition prova_prestito ::
  "string \<Rightarrow> string \<Rightarrow> int \<Rightarrow> letture \<Rightarrow> world \<Rightarrow> (exn + esito) \<times> world" where
  "prova_prestito utente_id libro_id giorni ore w =
     (case ObjectId libro_id of
        Inl e \<Rightarrow> (Inl e, w)
      | Inr l \<Rightarrow>
     (case find_one Libri [(''_id'', CEq (VOid l))] w of
        (Inl e, w1) \<Rightarrow> (Inl e, w1)
      | (Inr None, w1) \<Rightarrow> (Inr (Fallimento (Messaggio ''Libro non disponibile'')), w1)
      | (Inr (Some libro), w1) \<Rightarrow>
     (case non_disponibile libro of
        Inl e \<Rightarrow> (Inl e, w1)
      | Inr True \<Rightarrow> (Inr (Fallimento (Messaggio ''Libro non disponibile'')), w1)
      | Inr False \<Rightarrow>
     (case ObjectId utente_id of
        Inl e \<Rightarrow> (Inl e, w1)
      | Inr u \<Rightarrow>
     (case find_one Utenti [(''_id'', CEq (VOid u))] w1 of
        (Inl e, w2) \<Rightarrow> (Inl e, w2)
      | (Inr None, w2) \<Rightarrow> (Inr (Fallimento (Messaggio ''Utente non valido'')), w2)
      | (Inr (Some utente), w2) \<Rightarrow>
          if non_valido utente
          then (Inr (Fallimento (Messaggio ''Utente non valido'')), w2)
          else (case piu_giorni (ora_scadenza ore) giorni of
                  Inl e \<Rightarrow> (Inl e, w2)
                | Inr scadenza \<Rightarrow>
                    scritture_prestito l libro
                      (prestito_doc u l (ora_prestito ore) scadenza (ora_creazione ore))
                      scadenza w2))))))"

text \<open>
  \<open>crea_prestito(utente_id, libro_id, giorni=30)\<close>: a call that passes no number of days
  (\<open>None\<close> here) gets 30.
\<close>

definition giorni_effettivi :: "int option \<Rightarrow> int" where
  "giorni_effettivi giorni = (case giorni of None \<Rightarrow> 30 | Some g \<Rightarrow> g)"

definition crea_prestito ::
  "string \<Rightarrow> string \<Rightarrow> int option \<Rightarrow> letture \<Rightarrow> world \<Rightarrow> esito \<times> world" where
  "crea_prestito utente_id libro_id giorni ore w =
     (case prova_prestito utente_id libro_id (giorni_effettivi giorni) ore w of
        (Inr r, w1) \<Rightarrow> (r, w1)
      | (Inl e, w1) \<Rightarrow>
          (Fallimento (StrDi e), logger_error ''Errore creazione prestito'' e w1))"

subsection \<open>\<open>statistiche\<close>\<close>

text \<open>
  The five counts, one round trip each, in the order of the dictionary literal; \<open>ora\<close> is
  the reading of \<open>datetime.now()\<close> taken for the overdue count. Then the ranking of the
  most borrowed books. Any exception gives the empty dictionary.
\<close>

definition pipeline_piu_prestati :: "stadio list" where
  "pipeline_piu_prestati =
     [SGroupCount ''libro_id'',
      SSortCountDesc,
      SLimit 5,
      SLookup Libri ''_id'' ''_id'' ''libro'']"

definition prova_statistiche :: "int \<Rightarrow> world \<Rightarrow> (exn + doc) \<times> world" where
  "prova_statistiche ora w =
     (case count_documents Libri [] w of
        (Inl e, w1) \<Rightarrow> (Inl e, w1)
      | (Inr n1, w1) \<Rightarrow>
     (case count_documents Libri [(''disponibile'', CEq (VBool True))] w1 of
        (Inl e, w2) \<Rightarrow> (Inl e, w2)
      | (Inr n2, w2) \<Rightarrow>
     (case count_documents Prestiti [(''stato'', CEq (VStr ''attivo''))] w2 of
        (Inl e, w3) \<Rightarrow> (Inl e, w3)
      | (Inr n3, w3) \<Rightarrow>
     (case count_documents Utenti [(''attivo'', CEq (VBool True))] w3 of
        (Inl e, w4) \<Rightarrow> (Inl e, w4)
      | (Inr n4, w4) \<Rightarrow>
     (case count_documents Prestiti
             [(''stato'', CEq (VStr ''attivo'')), (''data_scadenza'', CLtDate ora)] w4 of
        (Inl e, w5) \<Rightarrow> (Inl e, w5)
      | (Inr n5, w5) \<Rightarrow>
     (case aggregate Prestiti pipeline_piu_prestati w5 of
        (Inl e, w6) \<Rightarrow> (Inl e, w6)
      | (Inr piu, w6) \<Rightarrow>
          (Inr [(''totale_libri'', VInt n1),
                (''libri_disponibili'', VInt n2),
                (''prestiti_attivi'', VInt n3),
                (''utenti_registrati'', VInt n4),
                (''prestiti_scaduti'', VInt n5),
                (''libri_piu_prestati'', VArr (map VSub piu))], w6)))))))"

definition statistiche :: "int \<Rightarrow> world \<Rightarrow> doc \<times> world" where
  "statistiche ora w =
     (case prova_statistiche ora w of
        (Inr stats, w1) \<Rightarrow> (stats, w1)
      | (Inl e, w1) \<Rightarrow> ([], logger_error ''Errore statistiche'' e w1))"

section \<open>Vocabulary of the properties\<close>

text \<open>The invariant of a book: its availability flag says whether copies are left.\<close>

definition invariante :: "doc \<Rightarrow> bool" where
  "invariante b =
     (case campo b ''numero_copie'' of
        Some (VInt n) \<Rightarrow> campo b ''disponibile'' = Some (VBool (0 < n))
      | _ \<Rightarrow> False)"

text \<open>A caller making loan requests one after the other, each on the state the last left.\<close>

record richiesta =
  r_utente :: string
  r_libro :: string
  r_giorni :: "int option"
  r_ore :: letture

fun in_sequenza :: "richiesta list \<Rightarrow> world \<Rightarrow> esito list \<times> world" where
  "in_sequenza [] w = ([], w)"
| "in_sequenza (c # cs) w =
     (case crea_prestito (r_utente c) (r_libro c) (r_giorni c) (r_ore c) w of
        (r, w1) \<Rightarrow> (case in_sequenza cs w1 of (rs, w2) \<Rightarrow> (r # rs, w2)))"

definition riuscito :: "esito \<Rightarrow> bool" where
  "riuscito r = (case r of Successo i s \<Rightarrow> True | Fallimento e \<Rightarrow> False)"

text \<open>
  A round trip of an operation failed: among the outcomes the operation used up, from
  the state \<open>w\<close> it started in to the state \<open>w'\<close> it left, one is not a success.
\<close>

definition fallita :: "world \<Rightarrow> world \<Rightarrow> bool" where
  "fallita w w' =
     list_ex (\<lambda>g. g \<noteq> Riuscita) (take (length (guasti w) - length (guasti w')) (guasti w))"

text \<open>A field that holds no array (a missing field holds none).\<close>

definition scalare :: "string \<Rightarrow> doc \<Rightarrow> bool" where
  "scalare k d = (case campo d k of Some (VArr xs) \<Rightarrow> False | _ \<Rightarrow> True)"

text \<open>
  A proof device for the read-only operations: the run \<open>xr\<close> of a block started in \<open>w\<close>
  left the log and the database alone and used up some outcomes of round trips, all of
  them successes unless the block ended in the store's exception.
\<close>

definition regolare :: "world \<Rightarrow> (exn + 'a) \<times> world \<Rightarrow> bool" where
  "regolare w xr =
     (registro (snd xr) = registro w \<and> db (snd xr) = db w \<and>
      (\<exists>n. guasti (snd xr) = drop n (guasti w) \<and>
           (fst xr \<noteq> Inl ConnectionFailure \<longrightarrow>
              list_all (\<lambda>g. g = Riuscita) (take n (guasti w)))))"

section \<open>Example stores\<close>

definition id_libro_es :: string where
  "id_libro_es = ''000000000000000000000001''"

definition id_utente_es :: string where
  "id_utente_es = ''000000000000000000000002''"

definition ore_es :: letture where
  "ore_es = \<lparr>ora_prestito = 1000, ora_scadenza = 1001, ora_creazione = 1002\<rparr>"

definition libro_1984 :: doc where
  "libro_1984 =
     [(''_id'', VOid 1), (''titolo'', VStr ''1984''), (''numero_copie'', VInt 3),
      (''disponibile'', VBool True)]"

definition libro_esaurito :: doc where
  "libro_esaurito =
     [(''_id'', VOid 1), (''titolo'', VStr ''1984''), (''numero_copie'', VInt 0),
      (''disponibile'', VBool False)]"

definition libro_senza_copie :: doc where
  "libro_senza_copie =
     [(''_id'', VOid 1), (''titolo'', VStr ''1984''), (''disponibile'', VBool True)]"

definition utente_attivo :: doc where
  "utente_attivo = [(''_id'', VOid 2), (''nome'', VStr ''Anna''), (''attivo'', VBool True)]"

definition mondo_di :: "doc list \<Rightarrow> doc list \<Rightarrow> doc list \<Rightarrow> rete list \<Rightarrow> world" where
  "mondo_di libri utenti prestiti gs =
     \<lparr>db = (\<lambda>c. case c of Libri \<Rightarrow> libri | Utenti \<Rightarrow> utenti | Prestiti \<Rightarrow> prestiti | _ \<Rightarrow> []),
      testo = (\<lambda>q d. False),
      guasti = gs,
      prossimo_id = 256,
      storia = [],
      registro = []\<rparr>"

definition mondo_vuoto :: world where
  "mondo_vuoto = mondo_di [] [] [] []"

definition mondo_1984 :: world where
  "mondo_1984 = mondo_di [libro_1984] [utente_attivo] [] []"

definition mondo_esaurito :: world where
  "mondo_esaurito = mondo_di [libro_esaurito] [utente_attivo] [] []"

definition mondo_senza_copie :: world where
  "mondo_senza_copie = mondo_di [libro_senza_copie] [utente_attivo] [] []"

definition mondo_senza_utente :: world where
  "mondo_senza_utente = mondo_di [libro_1984] [] [] []"

definition utente_inattivo :: doc where
  "utente_inattivo = [(''_id'', VOid 2), (''nome'', VStr ''Anna''), (''attivo'', VBool False)]"

definition mondo_utente_inattivo :: world where
  "mondo_utente_inattivo = mondo_di [libro_1984] [utente_inattivo] [] []"

definition prestito_es :: doc where
  "prestito_es =
     [(''_id'', VOid 256), (''utente_id'', VOid 2), (''libro_id'', VOid 1),
      (''data_prestito'', VDate 1000), (''data_scadenza'', VDate 2592000001000),
      (''stato'', VStr ''attivo''), (''created_at'', VDate 1000)]"

definition libro_1984_2 :: doc where
  "libro_1984_2 =
     [(''_id'', VOid 1), (''titolo'', VStr ''1984''), (''numero_copie'', VInt 2),
      (''disponibile'', VBool True)]"

definition libro_1984_0 :: doc where
  "libro_1984_0 =
     [(''_id'', VOid 1), (''titolo'', VStr ''1984''), (''numero_copie'', VInt 0),
      (''disponibile'', VBool False)]"

definition richiesta_es :: "int \<Rightarrow> int option \<Rightarrow> richiesta" where
  "richiesta_es t g =
     \<lparr>r_utente = id_utente_es, r_libro = id_libro_es, r_giorni = g,
      r_ore = \<lparr>ora_prestito = t, ora_scadenza = t + 1, ora_creazione = t + 2\<rparr>\<rparr>"

definition richieste_es :: "richiesta list" where
  "richieste_es =
     [richiesta_es 1200 None, richiesta_es 2500 (Some 30), richiesta_es 3999 (Some 14)]"

definition libri_statistiche :: "doc list" where
  "libri_statistiche =
     [[(''_id'', VOid 1), (''titolo'', VStr ''1984''), (''numero_copie'', VInt 3),
       (''disponibile'', VBool True)],
      [(''_id'', VOid 3), (''titolo'', VStr ''Il nome della rosa''), (''numero_copie'', VInt 1),
       (''disponibile'', VBool True)],
      [(''_id'', VOid 4), (''titolo'', VStr ''Il barone rampante''), (''numero_copie'', VInt 0),
       (''disponibile'', VBool False)],
      [(''_id'', VOid 5), (''titolo'', VStr ''La coscienza di Zeno''), (''numero_copie'', VInt 2),
       (''disponibile'', VBool True)],
      [(''_id'', VOid 6), (''titolo'', VStr ''Il Gattopardo''), (''numero_copie'', VInt 0),
       (''disponibile'', VBool False)]]"

definition prestiti_statistiche :: "doc list" where
  "prestiti_statistiche =
     [[(''_id'', VOid 7), (''utente_id'', VOid 2), (''libro_id'', VOid 4),
       (''data_scadenza'', VDate 5000), (''stato'', VStr ''attivo'')],
      [(''_id'', VOid 8), (''utente_id'', VOid 2), (''libro_id'', VOid 6),
       (''data_scadenza'', VDate 9000), (''stato'', VStr ''attivo'')]]"

definition mondo_statistiche :: world where
  "mondo_statistiche = mondo_di libri_statistiche [utente_attivo] prestiti_statistiche []"

definition libro_elenco :: doc where
  "libro_elenco =
     [(''_id'', VOid 1), (''titolo'', VStr ''1984''), (''numero_copie'', VInt 3),
      (''disponibile'', VArr [VBool True])]"

definition prestito_millisecondo :: doc where
  "prestito_millisecondo =
     [(''_id'', VOid 7), (''utente_id'', VOid 2), (''libro_id'', VOid 1),
      (''data_scadenza'', VDate 2592000001000), (''stato'', VStr ''attivo'')]"

definition mondo_millisecondo :: world where
  "mondo_millisecondo = mondo_di [libro_elenco] [utente_attivo] [prestito_millisecondo] []"

definition mondo_guasto :: "rete list \<Rightarrow> world" where
  "mondo_guasto gs = mondo_di libri_statistiche [utente_attivo] prestiti_statistiche gs"

section \<open>Facts about the store's primitives\<close>

lemma chiamata_campi [simp]:
  "db (snd (chiamata w)) = db w"
  "storia (snd (chiamata w)) = storia w"
  "testo (snd (chiamata w)) = testo w"
  "prossimo_id (snd (chiamata w)) = prossimo_id w"
  "registro (snd (chiamata w)) = registro w"
  by (simp_all add: chiamata_def split: list.splits)

lemma logger_error_campi [simp]:
  "db (logger_error m e w) = db w"
  "storia (logger_error m e w) = storia w"
  "testo (logger_error m e w) = testo w"
  "prossimo_id (logger_error m e w) = prossimo_id w"
  "guasti (logger_error m e w) = guasti w"
  "registro (logger_error m e w) = registro w @ [(m, e)]"
  by (simp_all add: logger_error_def)

lemma find_one_iff:
  "find_one c f w = (r, w1) \<longleftrightarrow>
     w1 = snd (chiamata w) \<and>
     r = (if fst (chiamata w) = Riuscita
          then Inr (List.find (soddisfa (testo w) f) (db w c))
          else Inl ConnectionFailure)"
  using chiamata_campi(1) [of w] chiamata_campi(3) [of w]
  by (cases "chiamata w"; cases "fst (chiamata w)") (auto simp: find_one_def)

subsection \<open>The paths of \<open>crea_prestito\<close>\<close>

text \<open>
  Either the call ends before any write, or both ids are well formed, the book and the
  member were found and pass the checks, and the call goes on to the two writes.
\<close>

lemma prova_prestito_casi:
  assumes "prova_prestito utente_id libro_id giorni ore w = (x, w')"
  shows "(db w' = db w \<and> storia w' = storia w \<and> testo w' = testo w \<and>
          (\<forall>i s. x \<noteq> Inr (Successo i s)))
       \<or> (\<exists>l u libro utente scadenza w1 w2.
             ObjectId libro_id = Inr l \<and> ObjectId utente_id = Inr u \<and>
             find_one Libri [(''_id'', CEq (VOid l))] w = (Inr (Some libro), w1) \<and>
             non_disponibile libro = Inr False \<and>
             find_one Utenti [(''_id'', CEq (VOid u))] w1 = (Inr (Some utente), w2) \<and>
             \<not> non_valido utente \<and>
             piu_giorni (ora_scadenza ore) giorni = Inr scadenza \<and>
             scritture_prestito l libro
               (prestito_doc u l (ora_prestito ore) scadenza (ora_creazione ore)) scadenza w2 = (x, w'))"
proof (cases "ObjectId libro_id")
  case (Inl e)
  with assms show ?thesis by (auto simp: prova_prestito_def)
next
  case l: (Inr l)
  obtain r1 w1 where f1: "find_one Libri [(''_id'', CEq (VOid l))] w = (r1, w1)"
    by (cases "find_one Libri [(''_id'', CEq (VOid l))] w")
  then have fr1: "db w1 = db w" "storia w1 = storia w" "testo w1 = testo w"
    by (simp_all add: find_one_iff)
  show ?thesis
  proof (cases "\<exists>libro. r1 = Inr (Some libro) \<and> non_disponibile libro = Inr False")
    case False
    with assms l f1 fr1 show ?thesis
      by (auto simp: prova_prestito_def split: sum.splits option.splits bool.splits)
  next
    case True
    then obtain libro where lb: "r1 = Inr (Some libro)" "non_disponibile libro = Inr False"
      by blast
    show ?thesis
    proof (cases "ObjectId utente_id")
      case (Inl e)
      with assms l f1 fr1 lb show ?thesis by (auto simp: prova_prestito_def)
    next
      case u: (Inr u)
      obtain r2 w2 where f2: "find_one Utenti [(''_id'', CEq (VOid u))] w1 = (r2, w2)"
        by (cases "find_one Utenti [(''_id'', CEq (VOid u))] w1")
      then have fr2: "db w2 = db w" "storia w2 = storia w" "testo w2 = testo w"
        using fr1 by (simp_all add: find_one_iff)
      show ?thesis
      proof (cases "\<exists>utente scadenza. r2 = Inr (Some utente) \<and> \<not> non_valido utente \<and>
                      piu_giorni (ora_scadenza ore) giorni = Inr scadenza")
        case False
        with assms l f1 lb u f2 fr2 show ?thesis
          by (auto simp: prova_prestito_def split: sum.splits option.splits if_splits)
      next
        case True
        then obtain utente scadenza where ut: "r2 = Inr (Some utente)" "\<not> non_valido utente"
          "piu_giorni (ora_scadenza ore) giorni = Inr scadenza" by blast
        with assms l f1 lb u f2 have
          "scritture_prestito l libro
             (prestito_doc u l (ora_prestito ore) scadenza (ora_creazione ore)) scadenza w2 = (x, w')"
          by (simp add: prova_prestito_def)
        with l u f1 lb f2 ut show ?thesis by blast
      qed
    qed
  qed
qed


text \<open>The two writes, and the three places where a call can stop.\<close>

lemma aggiorna_primo_Inr:
  "aggiorna_primo P u ds = Inr ds' \<Longrightarrow> List.find P ds = Some d \<Longrightarrow>
     \<exists>k d'. k < length ds \<and> ds ! k = d \<and> (\<forall>j<k. \<not> P (ds ! j)) \<and> u d = Inr d' \<and>
            ds' = ds[k := d']"
proof (induction ds arbitrary: ds')
  case Nil
  then show ?case by simp
next
  case (Cons a ds)
  show ?case
  proof (cases "P a")
    case True
    with Cons.prems(2) have da: "d = a" by simp
    from True Cons.prems(1) obtain d' where "u a = Inr d'" "ds' = d' # ds"
      by (cases "u a") simp_all
    with da have "0 < length (a # ds) \<and> (a # ds) ! 0 = d \<and> (\<forall>j<0. \<not> P ((a # ds) ! j)) \<and>
               u d = Inr d' \<and> ds' = (a # ds)[0 := d']"
      by simp
    then show ?thesis by blast
  next
    case False
    with Cons.prems(2) have f: "List.find P ds = Some d" by simp
    from False Cons.prems(1) obtain ds1 where r: "aggiorna_primo P u ds = Inr ds1" "ds' = a # ds1"
      by (cases "aggiorna_primo P u ds") simp_all
    from Cons.IH [OF r(1) f] obtain k d' where k: "k < length ds" "ds ! k = d"
      "\<forall>j<k. \<not> P (ds ! j)" "u d = Inr d'" "ds1 = ds[k := d']" by blast
    have "\<forall>j<Suc k. \<not> P ((a # ds) ! j)"
      using False k(3) by (auto simp: less_Suc_eq_0_disj)
    with k r(2) have "Suc k < length (a # ds) \<and> (a # ds) ! Suc k = d \<and>
        (\<forall>j<Suc k. \<not> P ((a # ds) ! j)) \<and> u d = Inr d' \<and> ds' = (a # ds)[Suc k := d']"
      by simp
    then show ?thesis by blast
  qed
qed

lemma aggiorna_primo_Inl:
  "aggiorna_primo P u ds = Inl e \<Longrightarrow> List.find P ds = Some d \<Longrightarrow> u d = Inl e"
  by (induction ds) (auto split: sum.splits if_splits)

lemma prestito_doc_senza_id: "campo (prestito_doc u l a s c) ''_id'' = None"
  by (simp add: prestito_doc_def campo_def)

lemma codifica_prestito_doc:
  "codifica ((''_id'', VOid i) # prestito_doc u l a s c) =
     (''_id'', VOid i) # prestito_doc u l (tronca_ms a) (tronca_ms s) (tronca_ms c)"
  by (simp add: codifica_def prestito_doc_def)

lemma insert_one_prestito:
  assumes "insert_one Prestiti (prestito_doc u l a s c) w = (r, w1)"
  shows "testo w1 = testo w \<and>
         ((db w1 = db w \<and> storia w1 = storia w \<and> (\<exists>e. r = Inl e))
        \<or> (db w1 = (db w)(Prestiti := db w Prestiti @
               [(''_id'', VOid (prossimo_id w)) #
                 prestito_doc u l (tronca_ms a) (tronca_ms s) (tronca_ms c)]) \<and>
            storia w1 = storia w @ [db w1] \<and>
            (r = Inr (VOid (prossimo_id w)) \<or> r = Inl ConnectionFailure)))"
proof -
  let ?w0 = "w\<lparr>prossimo_id := prossimo_id w + 1\<rparr>"
  have c: "db (snd (chiamata ?w0)) = db w" "storia (snd (chiamata ?w0)) = storia w"
    "testo (snd (chiamata ?w0)) = testo w"
    by simp_all
  from assms show ?thesis
    unfolding insert_one_def prestito_doc_senza_id
    using c
    by (cases "chiamata ?w0"; cases "fst (chiamata ?w0)")
       (auto simp: scrivi_def codifica_prestito_doc split: if_splits)
qed

lemma update_one_casi:
  assumes "update_one c f ms w = (r, w1)"
  shows "testo w1 = testo w \<and>
         ((db w1 = db w \<and> storia w1 = storia w \<and> (\<exists>e. r = Inl e))
        \<or> (\<exists>ds. aggiorna_primo (soddisfa (testo w) f) (applica_tutte ms) (db w c) = Inr ds \<and>
              db w1 = (db w)(c := ds) \<and> storia w1 = storia w @ [db w1] \<and>
              (r = Inr () \<or> r = Inl ConnectionFailure)))"
proof -
  have c: "db (snd (chiamata w)) = db w" "storia (snd (chiamata w)) = storia w"
    "testo (snd (chiamata w)) = testo w"
    by simp_all
  from assms show ?thesis
    unfolding update_one_def
    using c
    by (cases "chiamata w"; cases "fst (chiamata w)")
       (auto simp: scrivi_def split: if_splits sum.splits)
qed


lemma non_disponibile_False:
  assumes "non_disponibile libro = Inr False"
  shows "get_truthy libro ''disponibile'' \<and>
         ((\<exists>n. campo libro ''numero_copie'' = Some (VInt n) \<and> 0 < n)
          \<or> campo libro ''numero_copie'' = Some (VBool True))"
proof -
  from assms have t: "get_truthy libro ''disponibile''"
    and le: "py_le (case campo libro ''numero_copie'' of None \<Rightarrow> VInt 0 | Some v \<Rightarrow> v) 0 = Inr False"
    by (auto simp: non_disponibile_def split: if_splits)
  from le obtain v where v: "campo libro ''numero_copie'' = Some v" "py_le v 0 = Inr False"
    by (cases "campo libro ''numero_copie''") auto
  from v(2) have "(\<exists>n. v = VInt n \<and> 0 < n) \<or> v = VBool True"
    by (cases v) (auto split: if_splits)
  with t v(1) show ?thesis by auto
qed

lemma applica_decremento:
  assumes "applica_tutte [MInc ''numero_copie'' (- 1), MSet ''disponibile'' (VBool b)] d = Inr d1"
  shows "campo d ''numero_copie'' \<noteq> Some (VBool True)"
    and "campo d ''numero_copie'' = Some (VInt n) \<Longrightarrow>
           d1 = AList.update ''disponibile'' (VBool b)
                  (AList.update ''numero_copie'' (VInt (n - 1)) d)"
  using assms by (auto split: option.splits val.splits)

lemma scritture_prestito_casi:
  assumes trovato: "List.find (soddisfa (testo w) [(''_id'', CEq (VOid l))]) (db w Libri) = Some libro"
      and disp: "non_disponibile libro = Inr False"
      and run: "scritture_prestito l libro (prestito_doc u l a s c) s w = (x, w')"
  shows "testo w' = testo w \<and>
    ((db w' = db w \<and> storia w' = storia w \<and> (\<exists>e. x = Inl e))
   \<or> (db w' = (db w)(Prestiti := db w Prestiti @
            [(''_id'', VOid (prossimo_id w)) #
              prestito_doc u l (tronca_ms a) (tronca_ms s) (tronca_ms c)]) \<and>
       storia w' = storia w @ [db w'] \<and> (\<exists>e. x = Inl e))
   \<or> (\<exists>k n. k < length (db w Libri) \<and> db w Libri ! k = libro \<and>
          (\<forall>j<k. \<not> soddisfa (testo w) [(''_id'', CEq (VOid l))] (db w Libri ! j)) \<and>
          campo libro ''numero_copie'' = Some (VInt n) \<and> 0 < n \<and>
          db w' = (db w)
            (Prestiti := db w Prestiti @
               [(''_id'', VOid (prossimo_id w)) #
                 prestito_doc u l (tronca_ms a) (tronca_ms s) (tronca_ms c)],
             Libri := (db w Libri)
               [k := AList.update ''disponibile'' (VBool (1 < n))
                       (AList.update ''numero_copie'' (VInt (n - 1)) libro)]) \<and>
          storia w' = storia w @
            [(db w)(Prestiti := db w Prestiti @
               [(''_id'', VOid (prossimo_id w)) #
                 prestito_doc u l (tronca_ms a) (tronca_ms s) (tronca_ms c)]), db w'] \<and>
          (x = Inr (Successo (VOid (prossimo_id w)) s) \<or> x = Inl ConnectionFailure)))"
proof -
  let ?p = "(''_id'', VOid (prossimo_id w)) #
    prestito_doc u l (tronca_ms a) (tronca_ms s) (tronca_ms c)"
  let ?P = "soddisfa (testo w) [(''_id'', CEq (VOid l))]"
  obtain r1 w1 where ins: "insert_one Prestiti (prestito_doc u l a s c) w = (r1, w1)"
    by (cases "insert_one Prestiti (prestito_doc u l a s c) w")
  note i1 = insert_one_prestito [OF ins]
  show ?thesis
  proof (cases r1)
    case (Inl e)
    with run ins have "x = Inl e" "w' = w1" by (simp_all add: scritture_prestito_def)
    with i1 Inl show ?thesis by auto
  next
    case (Inr i)
    with i1 have dbA: "db w1 = (db w)(Prestiti := db w Prestiti @ [?p])"
      and stA: "storia w1 = storia w @ [db w1]" and ii: "i = VOid (prossimo_id w)"
      and t1: "testo w1 = testo w"
      by auto
    from non_disponibile_False [OF disp] obtain v where
      v: "campo libro ''numero_copie'' = Some v" "(\<exists>n. v = VInt n \<and> 0 < n) \<or> v = VBool True"
      by auto
    then have "\<exists>b. py_gt v 1 = Inr b \<and> (\<forall>n. v = VInt n \<longrightarrow> b = (1 < n))"
      by auto
    then obtain b where b: "py_gt v 1 = Inr b" "\<And>n. v = VInt n \<Longrightarrow> b = (1 < n)"
      by blast
    obtain r2 w2 where upd: "update_one Libri [(''_id'', CEq (VOid l))]
        [MInc ''numero_copie'' (- 1), MSet ''disponibile'' (VBool b)] w1 = (r2, w2)"
      by (cases "update_one Libri [(''_id'', CEq (VOid l))]
        [MInc ''numero_copie'' (- 1), MSet ''disponibile'' (VBool b)] w1")
    note u1 = update_one_casi [OF upd]
    from run ins Inr v(1) b(1) upd have xw: "w' = w2"
      "x = (case r2 of Inl e \<Rightarrow> Inl e | Inr y \<Rightarrow> Inr (Successo i s))"
      by (auto simp: scritture_prestito_def indice_def split: sum.splits)
    from u1 consider
        (nulla) "db w2 = db w1" "storia w2 = storia w1" "\<exists>e. r2 = Inl e"
      | (scritto) ds where
          "aggiorna_primo (soddisfa (testo w1) [(''_id'', CEq (VOid l))])
             (applica_tutte [MInc ''numero_copie'' (- 1), MSet ''disponibile'' (VBool b)])
             (db w1 Libri) = Inr ds"
          "db w2 = (db w1)(Libri := ds)" "storia w2 = storia w1 @ [db w2]"
          "r2 = Inr () \<or> r2 = Inl ConnectionFailure"
      by blast
    then show ?thesis
    proof cases
      case nulla
      with xw dbA stA t1 u1 show ?thesis by auto
    next
      case scritto
      have lib: "db w1 Libri = db w Libri" using dbA by simp
      from aggiorna_primo_Inr [OF scritto(1) [unfolded t1 lib] trovato]
      obtain k d' where k: "k < length (db w Libri)" "db w Libri ! k = libro"
        "\<forall>j<k. \<not> ?P (db w Libri ! j)"
        "applica_tutte [MInc ''numero_copie'' (- 1), MSet ''disponibile'' (VBool b)] libro = Inr d'"
        "ds = (db w Libri)[k := d']"
        by blast
      from applica_decremento(1) [OF k(4)] v obtain n where n: "v = VInt n" "0 < n"
        by auto
      from applica_decremento(2) [OF k(4)] v(1) n b(2)
      have d': "d' = AList.update ''disponibile'' (VBool (1 < n))
                      (AList.update ''numero_copie'' (VInt (n - 1)) libro)"
        by simp
      have x: "x = Inr (Successo (VOid (prossimo_id w)) s) \<or> x = Inl ConnectionFailure"
        using xw(2) scritto(4) ii by auto
      have dbB: "db w' = (db w)(Prestiti := db w Prestiti @ [?p],
          Libri := (db w Libri)[k := AList.update ''disponibile'' (VBool (1 < n))
                       (AList.update ''numero_copie'' (VInt (n - 1)) libro)])"
        using xw(1) scritto(2) dbA k(5) d' by simp
      have st: "storia w' = storia w @ [(db w)(Prestiti := db w Prestiti @ [?p]), db w']"
        using xw(1) scritto(3) stA dbA by simp
      have tt: "testo w' = testo w" using xw(1) u1 t1 by simp
      from k(1,2,3) v(1) n x dbB st tt show ?thesis by blast
    qed
  qed
qed


lemma crea_prestito_casi:
  assumes "crea_prestito utente_id libro_id giorni ore w = (r, w')"
  shows "testo w' = testo w \<and>
    ((db w' = db w \<and> storia w' = storia w \<and> (\<exists>e. r = Fallimento e))
   \<or> (\<exists>l u libro s.
         ObjectId libro_id = Inr l \<and> ObjectId utente_id = Inr u \<and>
         List.find (soddisfa (testo w) [(''_id'', CEq (VOid l))]) (db w Libri) = Some libro \<and>
         non_disponibile libro = Inr False \<and>
         piu_giorni (ora_scadenza ore) (giorni_effettivi giorni) = Inr s \<and>
         ((db w' = (db w)(Prestiti := db w Prestiti @
              [(''_id'', VOid (prossimo_id w)) #
                prestito_doc u l (tronca_ms (ora_prestito ore)) (tronca_ms s)
                  (tronca_ms (ora_creazione ore))]) \<and>
           storia w' = storia w @ [db w'] \<and> (\<exists>e. r = Fallimento e))
        \<or> (\<exists>k n. k < length (db w Libri) \<and> db w Libri ! k = libro \<and>
              (\<forall>j<k. \<not> soddisfa (testo w) [(''_id'', CEq (VOid l))] (db w Libri ! j)) \<and>
              campo libro ''numero_copie'' = Some (VInt n) \<and> 0 < n \<and>
              db w' = (db w)
                (Prestiti := db w Prestiti @
                   [(''_id'', VOid (prossimo_id w)) #
                     prestito_doc u l (tronca_ms (ora_prestito ore)) (tronca_ms s)
                       (tronca_ms (ora_creazione ore))],
                 Libri := (db w Libri)
                   [k := AList.update ''disponibile'' (VBool (1 < n))
                           (AList.update ''numero_copie'' (VInt (n - 1)) libro)]) \<and>
              storia w' = storia w @
                [(db w)(Prestiti := db w Prestiti @
                   [(''_id'', VOid (prossimo_id w)) #
                     prestito_doc u l (tronca_ms (ora_prestito ore)) (tronca_ms s)
                       (tronca_ms (ora_creazione ore))]),
                 db w'] \<and>
              (r = Successo (VOid (prossimo_id w)) s \<or>
               r = Fallimento (StrDi ConnectionFailure))))))"
proof -
  obtain x wx where
    p: "prova_prestito utente_id libro_id (giorni_effettivi giorni) ore w = (x, wx)"
    by (cases "prova_prestito utente_id libro_id (giorni_effettivi giorni) ore w")
  with assms have rw: "r = (case x of Inr y \<Rightarrow> y | Inl e \<Rightarrow> Fallimento (StrDi e))"
    "db w' = db wx" "storia w' = storia wx" "testo w' = testo wx"
    by (auto simp: crea_prestito_def split: sum.splits)
  from prova_prestito_casi [OF p] consider
      (prima) "db wx = db w" "storia wx = storia w" "testo wx = testo w"
        "\<forall>i s. x \<noteq> Inr (Successo i s)"
    | (scritture) l u libro utente s w1 w2 where
        "ObjectId libro_id = Inr l" "ObjectId utente_id = Inr u"
        "find_one Libri [(''_id'', CEq (VOid l))] w = (Inr (Some libro), w1)"
        "non_disponibile libro = Inr False"
        "find_one Utenti [(''_id'', CEq (VOid u))] w1 = (Inr (Some utente), w2)"
        "piu_giorni (ora_scadenza ore) (giorni_effettivi giorni) = Inr s"
        "scritture_prestito l libro (prestito_doc u l (ora_prestito ore) s (ora_creazione ore)) s w2 = (x, wx)"
    by blast
  then show ?thesis
  proof cases
    case prima
    have "\<exists>e. r = Fallimento e"
    proof (cases x)
      case (Inl e) with rw(1) show ?thesis by simp
    next
      case (Inr y) with prima(4) rw(1) show ?thesis by (cases y) auto
    qed
    with prima rw show ?thesis by simp
  next
    case scritture
    from scritture(3) have w1: "w1 = snd (chiamata w)"
      and tr: "List.find (soddisfa (testo w) [(''_id'', CEq (VOid l))]) (db w Libri) = Some libro"
      by (auto simp: find_one_iff split: if_splits)
    from scritture(5) have w2: "w2 = snd (chiamata w1)" by (simp add: find_one_iff)
    have eq: "db w2 = db w" "storia w2 = storia w" "testo w2 = testo w"
      "prossimo_id w2 = prossimo_id w"
      by (simp_all add: w1 w2)
    have tr2: "List.find (soddisfa (testo w2) [(''_id'', CEq (VOid l))]) (db w2 Libri) = Some libro"
      using tr eq by simp
    note c = scritture_prestito_casi [OF tr2 scritture(4) scritture(7), unfolded eq]
    have fx: "(\<exists>e. x = Inl e) \<Longrightarrow> \<exists>e. r = Fallimento e" using rw(1) by auto
    have sx: "x = Inr (Successo (VOid (prossimo_id w)) s) \<or> x = Inl ConnectionFailure \<Longrightarrow>
      r = Successo (VOid (prossimo_id w)) s \<or> r = Fallimento (StrDi ConnectionFailure)"
      using rw(1) by auto
    from c have tt: "testo w' = testo w" using rw(4) by simp
    from c consider
        (a) "db wx = db w" "storia wx = storia w" "\<exists>e. x = Inl e"
      | (b) "db wx = (db w)(Prestiti := db w Prestiti @
              [(''_id'', VOid (prossimo_id w)) #
                prestito_doc u l (tronca_ms (ora_prestito ore)) (tronca_ms s)
                  (tronca_ms (ora_creazione ore))])"
            "storia wx = storia w @ [db wx]" "\<exists>e. x = Inl e"
      | (c) k n where "k < length (db w Libri)" "db w Libri ! k = libro"
          "\<forall>j<k. \<not> soddisfa (testo w) [(''_id'', CEq (VOid l))] (db w Libri ! j)"
          "campo libro ''numero_copie'' = Some (VInt n)" "0 < n"
          "db wx = (db w)
            (Prestiti := db w Prestiti @
               [(''_id'', VOid (prossimo_id w)) #
                 prestito_doc u l (tronca_ms (ora_prestito ore)) (tronca_ms s)
                   (tronca_ms (ora_creazione ore))],
             Libri := (db w Libri)
               [k := AList.update ''disponibile'' (VBool (1 < n))
                       (AList.update ''numero_copie'' (VInt (n - 1)) libro)])"
          "storia wx = storia w @
            [(db w)(Prestiti := db w Prestiti @
               [(''_id'', VOid (prossimo_id w)) #
                 prestito_doc u l (tronca_ms (ora_prestito ore)) (tronca_ms s)
                   (tronca_ms (ora_creazione ore))]),
             db wx]"
          "x = Inr (Successo (VOid (prossimo_id w)) s) \<or> x = Inl ConnectionFailure"
      by blast
    then show ?thesis
    proof cases
      case a
      with fx rw tt show ?thesis by simp
    next
      case b
      with fx rw(2,3) have "db w' = (db w)(Prestiti := db w Prestiti @
              [(''_id'', VOid (prossimo_id w)) #
                prestito_doc u l (tronca_ms (ora_prestito ore)) (tronca_ms s)
                  (tronca_ms (ora_creazione ore))]) \<and>
           storia w' = storia w @ [db w'] \<and> (\<exists>e. r = Fallimento e)"
        by simp
      with scritture(1,2,4,6) tr tt show ?thesis by blast
    next
      case c
      from c(6,7) rw(2,3) sx [OF c(8)] have
        "db w' = (db w)
            (Prestiti := db w Prestiti @
               [(''_id'', VOid (prossimo_id w)) #
                 prestito_doc u l (tronca_ms (ora_prestito ore)) (tronca_ms s)
                   (tronca_ms (ora_creazione ore))],
             Libri := (db w Libri)
               [k := AList.update ''disponibile'' (VBool (1 < n))
                       (AList.update ''numero_copie'' (VInt (n - 1)) libro)]) \<and>
         storia w' = storia w @
            [(db w)(Prestiti := db w Prestiti @
               [(''_id'', VOid (prossimo_id w)) #
                 prestito_doc u l (tronca_ms (ora_prestito ore)) (tronca_ms s)
                   (tronca_ms (ora_creazione ore))]),
             db w'] \<and>
         (r = Successo (VOid (prossimo_id w)) s \<or> r = Fallimento (StrDi ConnectionFailure))"
        by simp
      with c(1-5) scritture(1,2,4,6) tr tt show ?thesis by blast
    qed
  qed
qed



subsection \<open>The example stores\<close>

lemma ObjectId_es [simp]:
  "ObjectId id_libro_es = Inr 1"
  "ObjectId id_utente_es = Inr 2"
  by (simp_all add: ObjectId_def cifra_hex_def id_libro_es_def id_utente_es_def)

lemma mondo_di_campi [simp]:
  "db (mondo_di ls us ps gs) Libri = ls"
  "db (mondo_di ls us ps gs) Utenti = us"
  "db (mondo_di ls us ps gs) Prestiti = ps"
  "db (mondo_di ls us ps gs) Categorie = []"
  "db (mondo_di ls us ps gs) Autori = []"
  "guasti (mondo_di ls us ps gs) = gs"
  "testo (mondo_di ls us ps gs) = (\<lambda>q d. False)"
  "prossimo_id (mondo_di ls us ps gs) = 256"
  "storia (mondo_di ls us ps gs) = []"
  "registro (mondo_di ls us ps gs) = []"
  by (simp_all add: mondo_di_def)

lemma find_one_es [simp]:
  "find_one c f (mondo_di ls us ps []) =
     (Inr (List.find (soddisfa (\<lambda>q d. False) f) (db (mondo_di ls us ps []) c)), mondo_di ls us ps [])"
  by (simp add: find_one_def chiamata_def)

lemma soddisfa_id [simp]:
  "soddisfa txt [(k, CEq v)] d = mongo_eq (campo d k) (bson v)"
  by (simp add: soddisfa_def soddisfa_cond_def)

subsection \<open>A loan that succeeds\<close>

lemma campo_update:
  "campo (AList.update k v d) k' = (if k' = k then Some v else campo d k')"
  by (simp add: campo_def update_conv')

lemma campo_prestito_doc:
  "campo ((''_id'', i) # prestito_doc u l a s c) ''libro_id'' = Some (VOid l)"
  "campo ((''_id'', i) # prestito_doc u l a s c) ''utente_id'' = Some (VOid u)"
  "campo ((''_id'', i) # prestito_doc u l a s c) ''stato'' = Some (VStr ''attivo'')"
  "campo ((''_id'', i) # prestito_doc u l a s c) ''data_scadenza'' = Some (VDate s)"
  "campo ((''_id'', i) # prestito_doc u l a s c) ''data_prestito'' = Some (VDate a)"
  by (simp_all add: campo_def prestito_doc_def)

lemma invariante_aggiornato:
  "invariante (AList.update ''disponibile'' (VBool (1 < n))
                 (AList.update ''numero_copie'' (VInt (n - 1)) d))"
  by (simp add: invariante_def campo_update)

lemma piu_giorni_Inr: "piu_giorni t g = Inr s \<Longrightarrow> s = t + g * giorno_us"
  by (auto simp: piu_giorni_def split: if_splits)

lemma soddisfa_id_aggiornato:
  "soddisfa txt [(''_id'', CEq v)]
     (AList.update ''disponibile'' a (AList.update ''numero_copie'' b d)) =
   soddisfa txt [(''_id'', CEq v)] d"
  by (simp add: soddisfa_def soddisfa_cond_def campo_update)

lemma find_aggiornato:
  assumes "k < length ds" "P d'" "\<forall>j<k. \<not> P (ds ! j)"
  shows "List.find P (ds[k := d']) = Some d'"
proof -
  have "\<exists>i<length (ds[k := d']). P (ds[k := d'] ! i) \<and> d' = ds[k := d'] ! i \<and>
          (\<forall>j<i. \<not> P (ds[k := d'] ! j))"
    using assms by (intro exI [of _ k]) simp
  then show ?thesis by (simp only: find_Some_iff)
qed

lemma crea_prestito_riuscito:
  assumes run: "crea_prestito utente_id libro_id giorni ore w = (r, w')"
      and ok: "riuscito r"
      and l: "ObjectId libro_id = Inr l"
      and tr: "List.find (soddisfa (testo w) [(''_id'', CEq (VOid l))]) (db w Libri) = Some libro"
      and n: "campo libro ''numero_copie'' = Some (VInt n)"
  shows "\<exists>libro' p.
           List.find (soddisfa (testo w') [(''_id'', CEq (VOid l))]) (db w' Libri) = Some libro' \<and>
           campo libro' ''numero_copie'' = Some (VInt (n - 1)) \<and>
           db w' Prestiti = db w Prestiti @ [p] \<and>
           campo p ''libro_id'' = Some (VOid l) \<and>
           campo p ''stato'' = Some (VStr ''attivo'') \<and>
           campo p ''data_scadenza'' =
             Some (VDate (tronca_ms (ora_scadenza ore + giorni_effettivi giorni * giorno_us)))"
proof -
  let ?P = "soddisfa (testo w) [(''_id'', CEq (VOid l))]"
  from ok have nf: "\<And>e. r \<noteq> Fallimento e" by (auto simp: riuscito_def)
  from crea_prestito_casi [OF run] nf l tr n obtain u s k where
    tt: "testo w' = testo w"
    and s: "piu_giorni (ora_scadenza ore) (giorni_effettivi giorni) = Inr s"
    and k: "k < length (db w Libri)" "db w Libri ! k = libro" "\<forall>j<k. \<not> ?P (db w Libri ! j)"
    and dbw: "db w' = (db w)
                (Prestiti := db w Prestiti @
                   [(''_id'', VOid (prossimo_id w)) #
                    prestito_doc u l (tronca_ms (ora_prestito ore)) (tronca_ms s)
                      (tronca_ms (ora_creazione ore))],
                 Libri := (db w Libri)
                   [k := AList.update ''disponibile'' (VBool (1 < n))
                           (AList.update ''numero_copie'' (VInt (n - 1)) libro)])"
    by auto
  let ?d = "AList.update ''disponibile'' (VBool (1 < n))
              (AList.update ''numero_copie'' (VInt (n - 1)) libro)"
  let ?p = "(''_id'', VOid (prossimo_id w)) #
              prestito_doc u l (tronca_ms (ora_prestito ore)) (tronca_ms s)
                (tronca_ms (ora_creazione ore))"
  from tr have "?P libro" by (auto simp only: find_Some_iff)
  then have "?P ?d" by (simp only: soddisfa_id_aggiornato)
  from find_aggiornato [OF k(1) this k(3)] dbw tt
  have f: "List.find (soddisfa (testo w') [(''_id'', CEq (VOid l))]) (db w' Libri) = Some ?d"
    by (simp del: soddisfa_id)
  have c: "campo ?d ''numero_copie'' = Some (VInt (n - 1))"
    by (simp add: campo_update)
  have ps: "db w' Prestiti = db w Prestiti @ [?p]" using dbw by simp
  have sc: "campo ?p ''data_scadenza'' =
      Some (VDate (tronca_ms (ora_scadenza ore + giorni_effettivi giorni * giorno_us)))"
    using piu_giorni_Inr [OF s] by (simp add: campo_prestito_doc)
  from f c ps sc campo_prestito_doc(1,3) [of "VOid (prossimo_id w)" u l
      "tronca_ms (ora_prestito ore)" "tronca_ms s" "tronca_ms (ora_creazione ore)"]
  show ?thesis by blast
qed

lemmas valuta_prestito =
  crea_prestito_def prova_prestito_def scritture_prestito_def find_one_def insert_one_def
  update_one_def
  scrivi_def chiamata_def mongo_eq_def campo_def non_disponibile_def non_valido_def
  get_truthy_def piu_giorni_def giorno_us_def datetime_sup_def indice_def prestito_doc_def
  soddisfa_def soddisfa_cond_def codifica_def tronca_ms_def giorni_effettivi_def

lemma esempio_1984:
  "fst (crea_prestito id_utente_es id_libro_es (Some 30) ore_es mondo_1984) =
     Successo (VOid 256) 2592000001001"
  "db (snd (crea_prestito id_utente_es id_libro_es (Some 30) ore_es mondo_1984)) Libri = [libro_1984_2]"
  "db (snd (crea_prestito id_utente_es id_libro_es (Some 30) ore_es mondo_1984)) Prestiti = [prestito_es]"
  "map (\<lambda>s. (s Libri, s Prestiti))
     (storia (snd (crea_prestito id_utente_es id_libro_es (Some 30) ore_es mondo_1984))) =
     [([libro_1984], [prestito_es]), ([libro_1984_2], [prestito_es])]"
  by (simp_all add: valuta_prestito mondo_1984_def libro_1984_def utente_attivo_def
      ore_es_def prestito_es_def libro_1984_2_def)


lemma esempio_sequenza:
  "fst (in_sequenza richieste_es mondo_1984) =
     [Successo (VOid 256) 2592000001201, Successo (VOid 257) 2592000002501,
      Successo (VOid 258) 1209600004000]"
  "db (snd (in_sequenza richieste_es mondo_1984)) Libri = [libro_1984_0]"
  "map (\<lambda>p. (campo p ''libro_id'', campo p ''stato'', campo p ''data_scadenza''))
     (db (snd (in_sequenza richieste_es mondo_1984)) Prestiti) =
     [(Some (VOid 1), Some (VStr ''attivo''), Some (VDate 2592000001000)),
      (Some (VOid 1), Some (VStr ''attivo''), Some (VDate 2592000002000)),
      (Some (VOid 1), Some (VStr ''attivo''), Some (VDate 1209600004000))]"
  by (simp_all add: valuta_prestito richieste_es_def richiesta_es_def mondo_1984_def
      libro_1984_def utente_attivo_def libro_1984_0_def)

section \<open>Loan creation\<close>

text \<open>
  Claim C10. Whenever \<open>ObjectId\<close> rejects the member id or the book id, \<open>crea_prestito\<close>
  returns a failure value instead of raising, and the store is as it was: no loan is
  inserted, no book is updated, no write reaches the store.
\<close>

theorem crea_prestito_id_malformato:
  assumes "(\<exists>e. ObjectId utente_id = Inl e) \<or> (\<exists>e. ObjectId libro_id = Inl e)"
      and "crea_prestito utente_id libro_id giorni ore w = (r, w')"
  shows "(\<exists>e. r = Fallimento e) \<and> db w' = db w \<and> storia w' = storia w"
  using crea_prestito_casi [OF assms(2)] assms(1) by auto

theorem crea_prestito_id_malformato_witness:
  "ObjectId ''xyz'' = Inl (InvalidId ''xyz'') \<and>
   crea_prestito ''xyz'' id_libro_es (Some 30) ore_es mondo_1984 =
     (Fallimento (StrDi (InvalidId ''xyz'')),
      logger_error ''Errore creazione prestito'' (InvalidId ''xyz'') mondo_1984) \<and>
   db (logger_error ''Errore creazione prestito'' (InvalidId ''xyz'') mondo_1984) = db mondo_1984"
proof -
  have h: "ObjectId ''xyz'' = Inl (InvalidId ''xyz'')"
    by (simp add: ObjectId_def)
  have run: "crea_prestito ''xyz'' id_libro_es (Some 30) ore_es mondo_1984 =
     (Fallimento (StrDi (InvalidId ''xyz'')),
      logger_error ''Errore creazione prestito'' (InvalidId ''xyz'') mondo_1984)"
    by (simp add: crea_prestito_def prova_prestito_def find_one_def chiamata_def h
        mondo_1984_def libro_1984_def non_disponibile_def get_truthy_def campo_def
        soddisfa_def soddisfa_cond_def mongo_eq_def)
  from h have h': "(\<exists>e. ObjectId ''xyz'' = Inl e) \<or> (\<exists>e. ObjectId id_libro_es = Inl e)"
    by simp
  from crea_prestito_id_malformato [OF h' run] h run show ?thesis by simp
qed

text \<open>
  Claim C9. A book that is found but has no \<open>numero_copie\<close> field counts as having 0
  copies: the availability check says unavailable, \<open>crea_prestito\<close> returns the failure
  \<open>Libro non disponibile\<close>, and the state is the one the lookup of the book left, with the
  database untouched and no write made.
\<close>

theorem crea_prestito_senza_numero_copie:
  assumes "ObjectId libro_id = Inr l"
      and "find_one Libri [(''_id'', CEq (VOid l))] w = (Inr (Some libro), w1)"
      and "campo libro ''numero_copie'' = None"
  shows "non_disponibile libro = Inr True \<and>
         crea_prestito utente_id libro_id giorni ore w =
           (Fallimento (Messaggio ''Libro non disponibile''), w1) \<and>
         db w1 = db w \<and> storia w1 = storia w"
proof -
  from assms(3) have nd: "non_disponibile libro = Inr True"
    by (simp add: non_disponibile_def)
  from assms(2) have "db w1 = db w" "storia w1 = storia w"
    by (simp_all add: find_one_iff)
  with assms(1,2) nd show ?thesis
    by (simp add: crea_prestito_def prova_prestito_def)
qed

theorem crea_prestito_senza_numero_copie_witness:
  "ObjectId id_libro_es = Inr 1 \<and>
   find_one Libri [(''_id'', CEq (VOid 1))] mondo_senza_copie =
     (Inr (Some libro_senza_copie), mondo_senza_copie) \<and>
   campo libro_senza_copie ''numero_copie'' = None \<and>
   crea_prestito id_utente_es id_libro_es (Some 30) ore_es mondo_senza_copie =
     (Fallimento (Messaggio ''Libro non disponibile''), mondo_senza_copie)"
proof -
  have f: "find_one Libri [(''_id'', CEq (VOid 1))] mondo_senza_copie =
     (Inr (Some libro_senza_copie), mondo_senza_copie)"
    by (simp add: find_one_def chiamata_def mondo_senza_copie_def libro_senza_copie_def
        soddisfa_def soddisfa_cond_def mongo_eq_def campo_def)
  have c: "campo libro_senza_copie ''numero_copie'' = None"
    by (simp add: libro_senza_copie_def campo_def)
  from crea_prestito_senza_numero_copie [OF ObjectId_es(1) f c] f c show ?thesis
    by simp
qed



text \<open>
  Claim C2, as the program has it. The two book failures are one outcome: when the book
  id is well formed and the lookup of the book answers, a missing book and a book that is
  found with a false (or missing) \<open>disponibile\<close> or with an integer \<open>numero_copie\<close> of 0
  or less both give the failure \<open>Libro non disponibile\<close>, and nothing is written.
\<close>

theorem crea_prestito_libro_assente_o_esaurito:
  assumes "ObjectId libro_id = Inr l"
      and "find_one Libri [(''_id'', CEq (VOid l))] w = (Inr trovato, w1)"
      and "trovato = None \<or>
           (\<exists>libro. trovato = Some libro \<and>
              (\<not> get_truthy libro ''disponibile'' \<or>
               (\<exists>n. campo libro ''numero_copie'' = Some (VInt n) \<and> n \<le> 0)))"
  shows "crea_prestito utente_id libro_id giorni ore w =
           (Fallimento (Messaggio ''Libro non disponibile''), w1) \<and>
         db w1 = db w \<and> storia w1 = storia w"
proof -
  from assms(2) have fr: "db w1 = db w" "storia w1 = storia w"
    by (simp_all add: find_one_iff)
  from assms(3) show ?thesis
  proof
    assume "trovato = None"
    with assms(1,2) fr show ?thesis
      by (simp add: crea_prestito_def prova_prestito_def)
  next
    assume "\<exists>libro. trovato = Some libro \<and>
              (\<not> get_truthy libro ''disponibile'' \<or>
               (\<exists>n. campo libro ''numero_copie'' = Some (VInt n) \<and> n \<le> 0))"
    then obtain libro where t: "trovato = Some libro"
      and c: "\<not> get_truthy libro ''disponibile'' \<or>
               (\<exists>n. campo libro ''numero_copie'' = Some (VInt n) \<and> n \<le> 0)"
      by blast
    from c have "non_disponibile libro = Inr True"
      by (auto simp: non_disponibile_def)
    with assms(1,2) t fr show ?thesis
      by (simp add: crea_prestito_def prova_prestito_def)
  qed
qed

theorem crea_prestito_libro_assente_o_esaurito_witness:
  "ObjectId id_libro_es = Inr 1 \<and>
   find_one Libri [(''_id'', CEq (VOid 1))] mondo_esaurito =
     (Inr (Some libro_esaurito), mondo_esaurito) \<and>
   campo libro_esaurito ''numero_copie'' = Some (VInt 0) \<and>
   crea_prestito id_utente_es id_libro_es (Some 30) ore_es mondo_esaurito =
     (Fallimento (Messaggio ''Libro non disponibile''), mondo_esaurito)"
proof -
  have f: "find_one Libri [(''_id'', CEq (VOid 1))] mondo_esaurito =
     (Inr (Some libro_esaurito), mondo_esaurito)"
    by (simp add: mondo_esaurito_def libro_esaurito_def mongo_eq_def campo_def)
  have c: "campo libro_esaurito ''numero_copie'' = Some (VInt 0)"
    by (simp add: libro_esaurito_def campo_def)
  have "Some libro_esaurito = None \<or>
           (\<exists>libro. Some libro_esaurito = Some libro \<and>
              (\<not> get_truthy libro ''disponibile'' \<or>
               (\<exists>n. campo libro ''numero_copie'' = Some (VInt n) \<and> n \<le> 0)))"
    using c by simp
  from crea_prestito_libro_assente_o_esaurito [OF ObjectId_es(1) f this] f c
  show ?thesis by simp
qed

text \<open>
  Claim C2 as stated fails: with no book in the store and with a book that has no copies
  left, the caller gets the same result value.
\<close>

theorem crea_prestito_stesso_errore_libro:
  "fst (crea_prestito id_utente_es id_libro_es (Some 30) ore_es mondo_vuoto) =
     fst (crea_prestito id_utente_es id_libro_es (Some 30) ore_es mondo_esaurito) \<and>
   db mondo_vuoto Libri = [] \<and>
   db mondo_esaurito Libri = [libro_esaurito] \<and>
   campo libro_esaurito ''_id'' = Some (VOid 1) \<and>
   campo libro_esaurito ''numero_copie'' = Some (VInt 0) \<and>
   ObjectId id_libro_es = Inr 1 \<and>
   fst (crea_prestito id_utente_es id_libro_es (Some 30) ore_es mondo_vuoto) =
     Fallimento (Messaggio ''Libro non disponibile'') \<and>
   fst (crea_prestito id_utente_es id_libro_es (Some 30) ore_es mondo_esaurito) =
     Fallimento (Messaggio ''Libro non disponibile'')"
  by (simp add: crea_prestito_def prova_prestito_def mondo_vuoto_def mondo_esaurito_def
      libro_esaurito_def mongo_eq_def campo_def non_disponibile_def get_truthy_def)

text \<open>
  Claim C6, as the program has it. When the member id names no member, \<open>crea_prestito\<close>
  returns a failure, inserts no loan and leaves every book as it was; when moreover both
  ids are well formed, the two lookups answer, and the book is found and available, the
  failure is \<open>Utente non valido\<close>, the value an inactive member gets too.
\<close>

theorem crea_prestito_utente_assente:
  assumes "\<And>u. ObjectId utente_id = Inr u \<Longrightarrow>
             List.find (soddisfa (testo w) [(''_id'', CEq (VOid u))]) (db w Utenti) = None"
      and "crea_prestito utente_id libro_id giorni ore w = (r, w')"
  shows "(\<exists>e. r = Fallimento e) \<and> db w' = db w \<and> storia w' = storia w \<and>
         (\<forall>l u libro.
            ObjectId libro_id = Inr l \<and> ObjectId utente_id = Inr u \<and>
            list_all (\<lambda>g. g = Riuscita) (take 2 (guasti w)) \<and>
            List.find (soddisfa (testo w) [(''_id'', CEq (VOid l))]) (db w Libri) = Some libro \<and>
            non_disponibile libro = Inr False
            \<longrightarrow> r = Fallimento (Messaggio ''Utente non valido''))"
proof -
  have frame: "(\<exists>e. r = Fallimento e) \<and> db w' = db w \<and> storia w' = storia w"
  proof (cases "ObjectId utente_id")
    case (Inl e)
    with crea_prestito_casi [OF assms(2)] show ?thesis by auto
  next
    case (Inr u)
    obtain x wx where
    p: "prova_prestito utente_id libro_id (giorni_effettivi giorni) ore w = (x, wx)"
      by (cases "prova_prestito utente_id libro_id (giorni_effettivi giorni) ore w")
    from prova_prestito_casi [OF p] assms(1) [OF Inr] Inr
    have "db wx = db w \<and> storia wx = storia w \<and> (\<forall>i s. x \<noteq> Inr (Successo i s))"
      by (auto simp: find_one_iff split: if_splits)
    moreover from this have "\<exists>e. (case x of Inr y \<Rightarrow> y | Inl e \<Rightarrow> Fallimento (StrDi e)) = Fallimento e"
      by (cases x; simp) (metis esito.exhaust)
    ultimately show ?thesis
      using assms(2) p by (auto simp: crea_prestito_def split: sum.splits)
  qed
  have "r = Fallimento (Messaggio ''Utente non valido'')"
    if h: "ObjectId libro_id = Inr l" "ObjectId utente_id = Inr u"
      "list_all (\<lambda>g. g = Riuscita) (take 2 (guasti w))"
      "List.find (soddisfa (testo w) [(''_id'', CEq (VOid l))]) (db w Libri) = Some libro"
      "non_disponibile libro = Inr False"
    for l u libro
  proof -
    from h(3) have g1: "fst (chiamata w) = Riuscita"
      and g2: "fst (chiamata (snd (chiamata w))) = Riuscita"
      by (cases "guasti w"; cases "tl (guasti w)"; simp add: chiamata_def)+
    have f1: "find_one Libri [(''_id'', CEq (VOid l))] w = (Inr (Some libro), snd (chiamata w))"
      using g1 h(4) by (simp add: find_one_iff)
    have f2: "find_one Utenti [(''_id'', CEq (VOid u))] (snd (chiamata w)) =
        (Inr None, snd (chiamata (snd (chiamata w))))"
      using g2 assms(1) [OF h(2)] by (simp add: find_one_iff)
    from assms(2) h(1,2,5) f1 f2 show ?thesis
      by (simp add: crea_prestito_def prova_prestito_def)
  qed
  with frame show ?thesis by blast
qed


theorem crea_prestito_utente_assente_witness:
  "ObjectId id_utente_es = Inr 2 \<and>
   List.find (soddisfa (testo mondo_senza_utente) [(''_id'', CEq (VOid 2))])
     (db mondo_senza_utente Utenti) = None \<and>
   crea_prestito id_utente_es id_libro_es (Some 30) ore_es mondo_senza_utente =
     (Fallimento (Messaggio ''Utente non valido''), mondo_senza_utente) \<and>
   (\<exists>e. Fallimento (Messaggio ''Utente non valido'') = Fallimento e) \<and>
   db mondo_senza_utente = db mondo_senza_utente"
proof -
  have h1: "\<And>u. ObjectId id_utente_es = Inr u \<Longrightarrow>
      List.find (soddisfa (testo mondo_senza_utente) [(''_id'', CEq (VOid u))])
        (db mondo_senza_utente Utenti) = None"
    by (simp add: mondo_senza_utente_def)
  have run: "crea_prestito id_utente_es id_libro_es (Some 30) ore_es mondo_senza_utente =
     (Fallimento (Messaggio ''Utente non valido''), mondo_senza_utente)"
    by (simp add: crea_prestito_def prova_prestito_def mondo_senza_utente_def libro_1984_def
        mongo_eq_def campo_def non_disponibile_def get_truthy_def)
  from crea_prestito_utente_assente [OF h1 run] h1 [OF ObjectId_es(2)] run
  show ?thesis by simp
qed

text \<open>
  Claim C6 as stated fails: the book is checked first, so a missing member with a missing
  book gives the book's failure; and a missing member gives the very result of an
  inactive one.
\<close>

theorem crea_prestito_utente_assente_altro_errore:
  "db mondo_vuoto Utenti = [] \<and>
   ObjectId id_utente_es = Inr 2 \<and>
   fst (crea_prestito id_utente_es id_libro_es (Some 30) ore_es mondo_vuoto) =
     Fallimento (Messaggio ''Libro non disponibile'') \<and>
   fst (crea_prestito id_utente_es id_libro_es (Some 30) ore_es mondo_vuoto) \<noteq>
     Fallimento (Messaggio ''Utente non valido'') \<and>
   db mondo_senza_utente Utenti = [] \<and>
   db mondo_utente_inattivo Utenti = [utente_inattivo] \<and>
   fst (crea_prestito id_utente_es id_libro_es (Some 30) ore_es mondo_senza_utente) =
     fst (crea_prestito id_utente_es id_libro_es (Some 30) ore_es mondo_utente_inattivo)"
  by (simp add: crea_prestito_def prova_prestito_def mondo_vuoto_def mondo_senza_utente_def
      mondo_utente_inattivo_def libro_1984_def utente_inattivo_def
      mongo_eq_def campo_def non_disponibile_def non_valido_def get_truthy_def)



text \<open>
  Claim C3. Whatever \<open>crea_prestito\<close> returns, every book on which the invariant
  \<open>disponibile = (numero_copie > 0)\<close> held before the call satisfies it after the call
  (the books keep their positions). When the call succeeds, the book the lookup found had
  an integer count \<open>n\<close>, and it now has the count \<open>n - 1\<close> and the flag \<open>n - 1 > 0\<close>, both
  written by the one update; every other book is as it was.
\<close>

theorem crea_prestito_invariante:
  assumes "crea_prestito utente_id libro_id giorni ore w = (r, w')"
  shows "length (db w' Libri) = length (db w Libri) \<and>
         (\<forall>i<length (db w Libri).
            invariante (db w Libri ! i) \<longrightarrow> invariante (db w' Libri ! i)) \<and>
         (riuscito r \<longrightarrow>
            (\<exists>l k n. ObjectId libro_id = Inr l \<and> k < length (db w Libri) \<and>
               List.find (soddisfa (testo w) [(''_id'', CEq (VOid l))]) (db w Libri) =
                 Some (db w Libri ! k) \<and>
               campo (db w Libri ! k) ''numero_copie'' = Some (VInt n) \<and>
               campo (db w' Libri ! k) ''numero_copie'' = Some (VInt (n - 1)) \<and>
               campo (db w' Libri ! k) ''disponibile'' = Some (VBool (0 < n - 1)) \<and>
               (\<forall>j<length (db w Libri). j \<noteq> k \<longrightarrow> db w' Libri ! j = db w Libri ! j)))"
proof -
  from crea_prestito_casi [OF assms] consider
      (nulla) "db w' Libri = db w Libri" "\<exists>e. r = Fallimento e"
    | (aggiornato) l libro k n where
        "ObjectId libro_id = Inr l"
        "List.find (soddisfa (testo w) [(''_id'', CEq (VOid l))]) (db w Libri) = Some libro"
        "k < length (db w Libri)" "db w Libri ! k = libro"
        "campo libro ''numero_copie'' = Some (VInt n)"
        "db w' Libri = (db w Libri)
           [k := AList.update ''disponibile'' (VBool (1 < n))
                   (AList.update ''numero_copie'' (VInt (n - 1)) libro)]"
    by fastforce
  then show ?thesis
  proof cases
    case nulla
    then show ?thesis by (auto simp: riuscito_def)
  next
    case aggiornato
    let ?d = "AList.update ''disponibile'' (VBool (1 < n))
                (AList.update ''numero_copie'' (VInt (n - 1)) libro)"
    have len: "length (db w' Libri) = length (db w Libri)"
      using aggiornato(6) by simp
    have inv: "\<forall>i<length (db w Libri).
            invariante (db w Libri ! i) \<longrightarrow> invariante (db w' Libri ! i)"
    proof (intro allI impI)
      fix i
      assume "i < length (db w Libri)" "invariante (db w Libri ! i)"
      then show "invariante (db w' Libri ! i)"
        by (cases "i = k") (simp_all add: aggiornato(6) invariante_aggiornato)
    qed
    have k1: "campo (db w' Libri ! k) ''numero_copie'' = Some (VInt (n - 1))"
      and k2: "campo (db w' Libri ! k) ''disponibile'' = Some (VBool (0 < n - 1))"
      using aggiornato(3,6) by (simp_all add: campo_update)
    have altri: "\<forall>j<length (db w Libri). j \<noteq> k \<longrightarrow> db w' Libri ! j = db w Libri ! j"
      using aggiornato(6) by simp
    from aggiornato(1,2,3,4,5) k1 k2 altri
    have "\<exists>l k n. ObjectId libro_id = Inr l \<and> k < length (db w Libri) \<and>
               List.find (soddisfa (testo w) [(''_id'', CEq (VOid l))]) (db w Libri) =
                 Some (db w Libri ! k) \<and>
               campo (db w Libri ! k) ''numero_copie'' = Some (VInt n) \<and>
               campo (db w' Libri ! k) ''numero_copie'' = Some (VInt (n - 1)) \<and>
               campo (db w' Libri ! k) ''disponibile'' = Some (VBool (0 < n - 1)) \<and>
               (\<forall>j<length (db w Libri). j \<noteq> k \<longrightarrow> db w' Libri ! j = db w Libri ! j)"
      by blast
    with len inv show ?thesis by blast
  qed
qed

theorem crea_prestito_invariante_witness:
  "invariante libro_1984 \<and>
   fst (crea_prestito id_utente_es id_libro_es (Some 30) ore_es mondo_1984) =
     Successo (VOid 256) 2592000001001 \<and>
   db mondo_1984 Libri = [libro_1984] \<and>
   db (snd (crea_prestito id_utente_es id_libro_es (Some 30) ore_es mondo_1984)) Libri = [libro_1984_2] \<and>
   invariante libro_1984_2"
proof -
  have i: "invariante libro_1984"
    by (simp add: invariante_def libro_1984_def campo_def)
  have "crea_prestito id_utente_es id_libro_es (Some 30) ore_es mondo_1984 =
    (fst (crea_prestito id_utente_es id_libro_es (Some 30) ore_es mondo_1984),
     snd (crea_prestito id_utente_es id_libro_es (Some 30) ore_es mondo_1984))"
    by simp
  from crea_prestito_invariante [OF this]
  have "\<forall>i<length (db mondo_1984 Libri). invariante (db mondo_1984 Libri ! i) \<longrightarrow>
     invariante (db (snd (crea_prestito id_utente_es id_libro_es (Some 30) ore_es mondo_1984)) Libri ! i)"
    by blast
  moreover have dbm: "db mondo_1984 Libri = [libro_1984]"
    by (simp add: mondo_1984_def)
  ultimately have "invariante libro_1984_2"
    using i by (simp add: esempio_1984(2))
  with i dbm esempio_1984(1,2) show ?thesis by simp
qed


text \<open>
  Claim C5. The states the store goes through during one \<open>crea_prestito\<close>, one after each
  write it applied, are recorded in \<open>storia\<close>; the last of them is the final database.
  Each of them holds the new loan at the end of the loans, referring to the book and the
  member of the call, and the first of them still has the books as they were: the loan
  is inserted before the book is updated, and no state has the book updated without the
  loan.
\<close>

theorem crea_prestito_ordine_scritture:
  assumes "crea_prestito utente_id libro_id giorni ore w = (r, w')"
  shows "\<exists>nuovi. storia w' = storia w @ nuovi \<and> db w' = last (db w # nuovi) \<and>
           (nuovi \<noteq> [] \<longrightarrow> hd nuovi Libri = db w Libri) \<and>
           (\<forall>s\<in>set nuovi. \<exists>l u p.
              ObjectId libro_id = Inr l \<and> ObjectId utente_id = Inr u \<and>
              s Prestiti = db w Prestiti @ [p] \<and>
              campo p ''libro_id'' = Some (VOid l) \<and>
              campo p ''utente_id'' = Some (VOid u) \<and>
              campo p ''stato'' = Some (VStr ''attivo''))"
proof -
  from crea_prestito_casi [OF assms] consider
      (nulla) "db w' = db w" "storia w' = storia w"
    | (inserito) l u s where
        "ObjectId libro_id = Inr l" "ObjectId utente_id = Inr u"
        "db w' = (db w)(Prestiti := db w Prestiti @
              [(''_id'', VOid (prossimo_id w)) #
               prestito_doc u l (tronca_ms (ora_prestito ore)) (tronca_ms s)
                 (tronca_ms (ora_creazione ore))])"
        "storia w' = storia w @ [db w']"
    | (aggiornato) l u s ds where
        "ObjectId libro_id = Inr l" "ObjectId utente_id = Inr u"
        "db w' = (db w)(Prestiti := db w Prestiti @
              [(''_id'', VOid (prossimo_id w)) #
               prestito_doc u l (tronca_ms (ora_prestito ore)) (tronca_ms s)
                 (tronca_ms (ora_creazione ore))], Libri := ds)"
        "storia w' = storia w @
           [(db w)(Prestiti := db w Prestiti @
              [(''_id'', VOid (prossimo_id w)) #
               prestito_doc u l (tronca_ms (ora_prestito ore)) (tronca_ms s)
                 (tronca_ms (ora_creazione ore))]), db w']"
    by fastforce
  then show ?thesis
  proof cases
    case nulla
    then have "storia w' = storia w @ [] \<and> db w' = last (db w # [])" by simp
    then show ?thesis by (intro exI [of _ "[]"]) simp
  next
    case inserito
    let ?p = "(''_id'', VOid (prossimo_id w)) #
               prestito_doc u l (tronca_ms (ora_prestito ore)) (tronca_ms s)
                 (tronca_ms (ora_creazione ore))"
    from inserito show ?thesis
      by (intro exI [of _ "[db w']"]) (auto simp: campo_prestito_doc)
  next
    case aggiornato
    let ?p = "(''_id'', VOid (prossimo_id w)) #
               prestito_doc u l (tronca_ms (ora_prestito ore)) (tronca_ms s)
                 (tronca_ms (ora_creazione ore))"
    from aggiornato show ?thesis
      by (intro exI [of _ "[(db w)(Prestiti := db w Prestiti @ [?p]), db w']"])
         (auto simp: campo_prestito_doc)
  qed
qed


theorem crea_prestito_ordine_scritture_witness:
  "fst (crea_prestito id_utente_es id_libro_es (Some 30) ore_es mondo_1984) =
     Successo (VOid 256) 2592000001001 \<and>
   storia mondo_1984 = [] \<and>
   map (\<lambda>s. (s Libri, s Prestiti))
     (storia (snd (crea_prestito id_utente_es id_libro_es (Some 30) ore_es mondo_1984))) =
     [([libro_1984], [prestito_es]), ([libro_1984_2], [prestito_es])] \<and>
   campo prestito_es ''libro_id'' = Some (VOid 1)"
proof -
  have "crea_prestito id_utente_es id_libro_es (Some 30) ore_es mondo_1984 =
    (fst (crea_prestito id_utente_es id_libro_es (Some 30) ore_es mondo_1984),
     snd (crea_prestito id_utente_es id_libro_es (Some 30) ore_es mondo_1984))"
    by simp
  from crea_prestito_ordine_scritture [OF this] obtain nuovi where
    "storia (snd (crea_prestito id_utente_es id_libro_es (Some 30) ore_es mondo_1984)) =
       storia mondo_1984 @ nuovi"
    "\<forall>s\<in>set nuovi. \<exists>l u p. ObjectId id_libro_es = Inr l \<and> ObjectId id_utente_es = Inr u \<and>
        s Prestiti = db mondo_1984 Prestiti @ [p] \<and> campo p ''libro_id'' = Some (VOid l) \<and>
        campo p ''utente_id'' = Some (VOid u) \<and> campo p ''stato'' = Some (VStr ''attivo'')"
    by blast
  moreover have st: "storia mondo_1984 = []" "db mondo_1984 Prestiti = []"
    by (simp_all add: mondo_1984_def)
  ultimately have "campo prestito_es ''libro_id'' = Some (VOid 1)"
    using esempio_1984(4) by auto
  with st esempio_1984(1,4) show ?thesis by simp
qed


lemma prestiti_in_sequenza_passi:
  assumes "ObjectId libro_id = Inr l"
      and "List.find (soddisfa (testo w) [(''_id'', CEq (VOid l))]) (db w Libri) = Some libro"
      and "campo libro ''numero_copie'' = Some (VInt C)"
      and "\<forall>c\<in>set cs. r_libro c = libro_id"
      and "in_sequenza cs w = (rs, w')"
      and "\<forall>r\<in>set rs. riuscito r"
  shows "\<exists>libro' ps.
           List.find (soddisfa (testo w') [(''_id'', CEq (VOid l))]) (db w' Libri) = Some libro' \<and>
           campo libro' ''numero_copie'' = Some (VInt (C - int (length cs))) \<and>
           db w' Prestiti = db w Prestiti @ ps \<and>
           length ps = length cs \<and>
           (\<forall>j<length cs.
              campo (ps ! j) ''libro_id'' = Some (VOid l) \<and>
              campo (ps ! j) ''stato'' = Some (VStr ''attivo'') \<and>
              campo (ps ! j) ''data_scadenza'' =
                Some (VDate (tronca_ms (ora_scadenza (r_ore (cs ! j)) +
                  giorni_effettivi (r_giorni (cs ! j)) * giorno_us))))"
  using assms(2-)
proof (induction cs arbitrary: w libro C rs)
  case Nil
  then show ?case by simp
next
  case (Cons c cs)
  obtain r w1 where run: "crea_prestito (r_utente c) (r_libro c) (r_giorni c) (r_ore c) w = (r, w1)"
    by (cases "crea_prestito (r_utente c) (r_libro c) (r_giorni c) (r_ore c) w")
  from Cons.prems(4) run obtain rs1 where rest: "in_sequenza cs w1 = (rs1, w')"
    and eq: "rs = r # rs1"
    by (auto split: prod.splits)
  from Cons.prems(3) have lib: "r_libro c = libro_id" "\<forall>c\<in>set cs. r_libro c = libro_id"
    by simp_all
  from Cons.prems(5) eq have ok: "riuscito r" "\<forall>r\<in>set rs1. riuscito r" by simp_all
  from crea_prestito_riuscito [OF run [unfolded lib(1)] ok(1) assms(1) Cons.prems(1,2)]
  obtain libro1 p where
    f1: "List.find (soddisfa (testo w1) [(''_id'', CEq (VOid l))]) (db w1 Libri) = Some libro1"
    and c1: "campo libro1 ''numero_copie'' = Some (VInt (C - 1))"
    and p1: "db w1 Prestiti = db w Prestiti @ [p]"
    and p: "campo p ''libro_id'' = Some (VOid l)" "campo p ''stato'' = Some (VStr ''attivo'')"
      "campo p ''data_scadenza'' =
         Some (VDate (tronca_ms (ora_scadenza (r_ore c) + giorni_effettivi (r_giorni c) * giorno_us)))"
    by blast
  from Cons.IH [OF f1 c1 lib(2) rest ok(2)] obtain libro' ps where
    f2: "List.find (soddisfa (testo w') [(''_id'', CEq (VOid l))]) (db w' Libri) = Some libro'"
    and c2: "campo libro' ''numero_copie'' = Some (VInt (C - 1 - int (length cs)))"
    and p2: "db w' Prestiti = db w1 Prestiti @ ps" "length ps = length cs"
    and ps: "\<forall>j<length cs.
              campo (ps ! j) ''libro_id'' = Some (VOid l) \<and>
              campo (ps ! j) ''stato'' = Some (VStr ''attivo'') \<and>
              campo (ps ! j) ''data_scadenza'' =
                Some (VDate (tronca_ms (ora_scadenza (r_ore (cs ! j)) +
                  giorni_effettivi (r_giorni (cs ! j)) * giorno_us)))"
    by blast
  have a: "campo libro' ''numero_copie'' = Some (VInt (C - int (length (c # cs))))"
    using c2 by (simp add: algebra_simps)
  have b: "db w' Prestiti = db w Prestiti @ (p # ps)" "length (p # ps) = length (c # cs)"
    using p1 p2 by simp_all
  have d: "\<forall>j<length (c # cs).
              campo ((p # ps) ! j) ''libro_id'' = Some (VOid l) \<and>
              campo ((p # ps) ! j) ''stato'' = Some (VStr ''attivo'') \<and>
              campo ((p # ps) ! j) ''data_scadenza'' =
                Some (VDate (tronca_ms (ora_scadenza (r_ore ((c # cs) ! j)) +
                  giorni_effettivi (r_giorni ((c # cs) ! j)) * giorno_us)))"
  proof (intro allI impI)
    fix j
    assume "j < length (c # cs)"
    then show "campo ((p # ps) ! j) ''libro_id'' = Some (VOid l) \<and>
              campo ((p # ps) ! j) ''stato'' = Some (VStr ''attivo'') \<and>
              campo ((p # ps) ! j) ''data_scadenza'' =
                Some (VDate (tronca_ms (ora_scadenza (r_ore ((c # cs) ! j)) +
                  giorni_effettivi (r_giorni ((c # cs) ! j)) * giorno_us)))"
      using p ps by (cases j) simp_all
  qed
  from f2 a b d show ?case by blast
qed

text \<open>
  Claim C4, as the program has it. A caller makes \<open>N\<close> loan requests in sequence, all for
  the book with the id \<open>libro_id\<close>, whose document has the integer count \<open>C\<close> at the start,
  and all \<open>N\<close> calls return success. Then the book found for that id has the count
  \<open>C - N\<close>, and the loans are the former ones followed by exactly \<open>N\<close> new ones, the
  \<open>j\<close>-th of which refers to the book, is in state \<open>attivo\<close>, and is due at the clock reading
  of call \<open>j\<close> plus its number of days, 30 days when the call passes none, cut to whole
  milliseconds as the store keeps every datetime.
\<close>

theorem prestiti_in_sequenza_conservazione:
  assumes "ObjectId libro_id = Inr l"
      and "List.find (soddisfa (testo w) [(''_id'', CEq (VOid l))]) (db w Libri) = Some libro"
      and "campo libro ''numero_copie'' = Some (VInt C)"
      and "\<forall>c\<in>set cs. r_libro c = libro_id"
      and "in_sequenza cs w = (rs, w')"
      and "\<forall>r\<in>set rs. riuscito r"
  shows "\<exists>libro' ps.
           List.find (soddisfa (testo w') [(''_id'', CEq (VOid l))]) (db w' Libri) = Some libro' \<and>
           campo libro' ''numero_copie'' = Some (VInt (C - int (length cs))) \<and>
           db w' Prestiti = db w Prestiti @ ps \<and>
           length ps = length cs \<and>
           (\<forall>j<length cs.
              campo (ps ! j) ''libro_id'' = Some (VOid l) \<and>
              campo (ps ! j) ''stato'' = Some (VStr ''attivo'') \<and>
              campo (ps ! j) ''data_scadenza'' =
                Some (VDate (tronca_ms (ora_scadenza (r_ore (cs ! j)) +
                  (case r_giorni (cs ! j) of None \<Rightarrow> 30 | Some g \<Rightarrow> g) * giorno_us))))"
  using prestiti_in_sequenza_passi [OF assms] by (simp only: giorni_effettivi_def)

theorem prestiti_in_sequenza_conservazione_witness:
  "ObjectId id_libro_es = Inr 1 \<and>
   db mondo_1984 Libri = [libro_1984] \<and>
   campo libro_1984 ''numero_copie'' = Some (VInt 3) \<and>
   length richieste_es = 3 \<and>
   map r_giorni richieste_es = [None, Some 30, Some 14] \<and>
   map (\<lambda>c. ora_scadenza (r_ore c)) richieste_es = [1201, 2501, 4000] \<and>
   list_all riuscito (fst (in_sequenza richieste_es mondo_1984)) \<and>
   db (snd (in_sequenza richieste_es mondo_1984)) Libri = [libro_1984_0] \<and>
   campo libro_1984_0 ''numero_copie'' = Some (VInt (3 - 3)) \<and>
   db mondo_1984 Prestiti = [] \<and>
   map (\<lambda>p. (campo p ''libro_id'', campo p ''stato'', campo p ''data_scadenza''))
     (db (snd (in_sequenza richieste_es mondo_1984)) Prestiti) =
     [(Some (VOid 1), Some (VStr ''attivo''), Some (VDate (tronca_ms (1201 + 30 * giorno_us)))),
      (Some (VOid 1), Some (VStr ''attivo''), Some (VDate (tronca_ms (2501 + 30 * giorno_us)))),
      (Some (VOid 1), Some (VStr ''attivo''), Some (VDate (tronca_ms (4000 + 14 * giorno_us))))]"
proof -
  have f: "List.find (soddisfa (testo mondo_1984) [(''_id'', CEq (VOid 1))])
             (db mondo_1984 Libri) = Some libro_1984"
    by (simp add: mondo_1984_def libro_1984_def mongo_eq_def campo_def)
  have c: "campo libro_1984 ''numero_copie'' = Some (VInt 3)"
    by (simp add: libro_1984_def campo_def)
  have a: "\<forall>c\<in>set richieste_es. r_libro c = id_libro_es"
    by (simp add: richieste_es_def richiesta_es_def)
  have run: "in_sequenza richieste_es mondo_1984 =
    (fst (in_sequenza richieste_es mondo_1984), snd (in_sequenza richieste_es mondo_1984))"
    by simp
  have ok: "\<forall>r\<in>set (fst (in_sequenza richieste_es mondo_1984)). riuscito r"
    by (simp add: esempio_sequenza(1) riuscito_def)
  from prestiti_in_sequenza_conservazione [OF ObjectId_es(1) f c a run ok]
  obtain libro' where
    "List.find (soddisfa (testo (snd (in_sequenza richieste_es mondo_1984)))
        [(''_id'', CEq (VOid 1))]) (db (snd (in_sequenza richieste_es mondo_1984)) Libri) =
      Some libro'"
    "campo libro' ''numero_copie'' = Some (VInt (3 - int (length richieste_es)))"
    by blast
  moreover have len: "length richieste_es = 3"
    by (simp add: richieste_es_def)
  ultimately have z: "campo libro_1984_0 ''numero_copie'' = Some (VInt (3 - 3))"
    by (auto simp: esempio_sequenza(2) split: if_splits)
  have dbm: "db mondo_1984 Libri = [libro_1984]" "db mondo_1984 Prestiti = []"
    by (simp_all add: mondo_1984_def)
  have rq: "map r_giorni richieste_es = [None, Some 30, Some 14]"
    "map (\<lambda>c. ora_scadenza (r_ore c)) richieste_es = [1201, 2501, 4000]"
    by (simp_all add: richieste_es_def richiesta_es_def)
  from z c ok len dbm rq esempio_sequenza(2,3) show ?thesis
    by (simp add: list_all_iff giorno_us_def tronca_ms_def)
qed

text \<open>
  Claim C4 as stated fails: the loan document does not keep the clock reading plus the
  days to the microsecond. A call at the reading 1001 microseconds with 30 days returns
  the due date 2592000001001, and the stored loan is due at 2592000001000.
\<close>

theorem prestito_scadenza_ai_millisecondi:
  "ora_scadenza ore_es = 1001 \<and>
   fst (crea_prestito id_utente_es id_libro_es (Some 30) ore_es mondo_1984) =
     Successo (VOid 256) (1001 + 30 * giorno_us) \<and>
   db (snd (crea_prestito id_utente_es id_libro_es (Some 30) ore_es mondo_1984)) Prestiti =
     [prestito_es] \<and>
   campo prestito_es ''data_scadenza'' = Some (VDate 2592000001000) \<and>
   campo prestito_es ''data_scadenza'' \<noteq> Some (VDate (1001 + 30 * giorno_us))"
proof -
  have o: "ora_scadenza ore_es = 1001"
    by (simp add: ore_es_def)
  have d: "campo prestito_es ''data_scadenza'' = Some (VDate 2592000001000)"
    by (simp add: prestito_es_def campo_def)
  from o d esempio_1984(1,3) show ?thesis
    by (simp add: giorno_us_def)
qed

section \<open>Book search\<close>

lemma count_documents_eq:
  "count_documents c f w =
     (if fst (chiamata w) = Riuscita
      then Inr (int (length (filter (soddisfa (testo w) f) (db w c))))
      else Inl ConnectionFailure, snd (chiamata w))"
  using chiamata_campi(1) [of w] chiamata_campi(3) [of w]
  by (cases "chiamata w"; cases "fst (chiamata w)") (auto simp: count_documents_def)

lemma aggregate_eq:
  "aggregate c pl w =
     (if fst (chiamata w) = Riuscita
      then Inr (foldl (\<lambda>ds s. esegui (db w) (testo w) s ds) (db w c) pl)
      else Inl ConnectionFailure, snd (chiamata w))"
  using chiamata_campi(1) [of w] chiamata_campi(3) [of w]
  by (cases "chiamata w"; cases "fst (chiamata w)") (auto simp: aggregate_def)

lemma find_one_eq:
  "find_one c f w =
     (if fst (chiamata w) = Riuscita
      then Inr (List.find (soddisfa (testo w) f) (db w c))
      else Inl ConnectionFailure, snd (chiamata w))"
  using find_one_iff [of c f w] by (cases "find_one c f w") simp

lemma chiamata_riuscita:
  assumes "list_all (\<lambda>g. g = Riuscita) (take (Suc n) (guasti w))"
  shows "fst (chiamata w) = Riuscita"
    and "list_all (\<lambda>g. g = Riuscita) (take n (guasti (snd (chiamata w))))"
  using assms by (cases "guasti w"; simp add: chiamata_def)+

lemmas valuta_ricerca =
  cerca_libri_def match_conditions_def pipeline_ricerca_def find_one_def aggregate_def
  chiamata_def soddisfa_def soddisfa_cond_def mongo_eq_def campo_def lookup_def
  project_libro_def includi_def percorso_def update_conv'

text \<open>
  Claim C1, as the program has it. When the category name matches no category and the
  round trips of the search succeed, the category condition is left out: the search
  returns what the same search without a category returns, the books that satisfy the
  text and availability conditions. Nothing is written.
\<close>

theorem cerca_libri_categoria_assente:
  assumes "list_all (\<lambda>g. g = Riuscita) (take 2 (guasti w))"
      and "\<forall>c\<in>set (db w Categorie). \<not> mongo_eq (campo c ''nome'') (VStr nome)"
  shows "fst (cerca_libri query (Some nome) autore disponibile w) =
         fst (cerca_libri query None autore disponibile w) \<and>
         db (snd (cerca_libri query (Some nome) autore disponibile w)) = db w"
proof -
  have two: "(2::nat) = Suc (Suc 0)" by simp
  note r1 = chiamata_riuscita [OF assms(1) [unfolded two]]
  note r2 = chiamata_riuscita(1) [OF r1(2)]
  have nf: "List.find (soddisfa (testo w) [(''nome'', CEq (VStr nome))]) (db w Categorie) = None"
    using assms(2) by (simp add: find_None_iff)
  show ?thesis
    by (simp add: cerca_libri_def match_conditions_def find_one_eq aggregate_eq r1(1) r2 nf
        del: soddisfa_id split: option.splits)
qed


theorem cerca_libri_categoria_assente_witness:
  "db mondo_statistiche Categorie = [] \<and>
   fst (cerca_libri None (Some ''Gialli'') None (Some True) mondo_statistiche) =
     fst (cerca_libri None None None (Some True) mondo_statistiche) \<and>
   map (\<lambda>d. campo d ''titolo'')
     (fst (cerca_libri None (Some ''Gialli'') None (Some True) mondo_statistiche)) =
     [Some (VStr ''1984''), Some (VStr ''Il nome della rosa''),
      Some (VStr ''La coscienza di Zeno'')]"
proof -
  have g: "list_all (\<lambda>g. g = Riuscita) (take 2 (guasti mondo_statistiche))"
    by (simp add: mondo_statistiche_def)
  have c: "\<forall>c\<in>set (db mondo_statistiche Categorie). \<not> mongo_eq (campo c ''nome'') (VStr ''Gialli'')"
    by (simp add: mondo_statistiche_def)
  have e: "db mondo_statistiche Categorie = []"
    by (simp add: mondo_statistiche_def)
  have v: "map (\<lambda>d. campo d ''titolo'')
     (fst (cerca_libri None None None (Some True) mondo_statistiche)) =
     [Some (VStr ''1984''), Some (VStr ''Il nome della rosa''),
      Some (VStr ''La coscienza di Zeno'')]"
    by (simp add: valuta_ricerca mondo_statistiche_def libri_statistiche_def)
  from cerca_libri_categoria_assente [OF g c, of None None "Some True"] e v
  show ?thesis by simp
qed

text \<open>
  Claim C1 as stated fails: in a store with one book and no category, the search for an
  unknown category returns that book.
\<close>

theorem cerca_libri_categoria_assente_non_vuota:
  "db mondo_1984 Categorie = [] \<and>
   fst (cerca_libri None (Some ''Gialli'') None None mondo_1984) =
     [[(''_id'', VOid 1), (''titolo'', VStr ''1984''), (''disponibile'', VBool True),
       (''numero_copie'', VInt 3), (''autori'', VArr [])]] \<and>
   fst (cerca_libri None (Some ''Gialli'') None None mondo_1984) \<noteq> []"
  by (simp add: valuta_ricerca mondo_1984_def libro_1984_def)


section \<open>Statistics\<close>

lemma mongo_eq_scalare:
  "scalare k d \<Longrightarrow> v \<noteq> VNull \<Longrightarrow> mongo_eq (campo d k) v \<longleftrightarrow> campo d k = Some v"
  by (auto simp: scalare_def mongo_eq_def split: option.splits val.splits)

lemma mongo_lt_date_scalare:
  "scalare k d \<Longrightarrow>
     mongo_lt_date (campo d k) t \<longleftrightarrow>
       (case campo d k of Some (VDate a) \<Rightarrow> tronca_ms a < tronca_ms t | _ \<Rightarrow> False)"
  by (auto simp: scalare_def mongo_lt_date_def split: option.splits val.splits)

lemma conta_cong:
  "(\<And>d. d \<in> set ds \<Longrightarrow> P d = Q d) \<Longrightarrow> length (filter P ds) = length (filter Q ds)"
  by (induction ds) auto

lemma prova_statistiche_riuscita:
  assumes "list_all (\<lambda>g. g = Riuscita) (take 6 (guasti w))"
  shows "\<exists>piu w1. prova_statistiche ora w =
    (Inr [(''totale_libri'', VInt (int (length (filter (soddisfa (testo w) []) (db w Libri))))),
          (''libri_disponibili'', VInt (int (length (filter
              (soddisfa (testo w) [(''disponibile'', CEq (VBool True))]) (db w Libri))))),
          (''prestiti_attivi'', VInt (int (length (filter
              (soddisfa (testo w) [(''stato'', CEq (VStr ''attivo''))]) (db w Prestiti))))),
          (''utenti_registrati'', VInt (int (length (filter
              (soddisfa (testo w) [(''attivo'', CEq (VBool True))]) (db w Utenti))))),
          (''prestiti_scaduti'', VInt (int (length (filter
              (soddisfa (testo w)
                 [(''stato'', CEq (VStr ''attivo'')), (''data_scadenza'', CLtDate ora)])
              (db w Prestiti))))),
          (''libri_piu_prestati'', VArr (map VSub piu))], w1)"
proof -
  have six: "(6::nat) = Suc (Suc (Suc (Suc (Suc (Suc 0)))))" by simp
  note r1 = chiamata_riuscita [OF assms [unfolded six]]
  note r2 = chiamata_riuscita [OF r1(2)]
  note r3 = chiamata_riuscita [OF r2(2)]
  note r4 = chiamata_riuscita [OF r3(2)]
  note r5 = chiamata_riuscita [OF r4(2)]
  note r6 = chiamata_riuscita [OF r5(2)]
  show ?thesis
    by (simp add: prova_statistiche_def count_documents_eq aggregate_eq
        r1(1) r2(1) r3(1) r4(1) r5(1) r6(1) del: soddisfa_id) blast
qed

text \<open>
  Claim C7, as the program has it. When the six round trips of \<open>statistiche\<close> succeed, the
  result gives under \<open>totale_libri\<close> the number of books and, in a store whose counted
  fields hold no arrays, under \<open>libri_disponibili\<close> the number of books whose
  \<open>disponibile\<close> is true, under \<open>prestiti_attivi\<close> the number of loans in state \<open>attivo\<close>,
  under \<open>utenti_registrati\<close> the number of members whose \<open>attivo\<close> is true, and under
  \<open>prestiti_scaduti\<close> the number of loans in state \<open>attivo\<close> whose due date is a datetime
  before the clock reading \<open>ora\<close>, both taken in whole milliseconds. On the example store
  \<open>mondo_statistiche\<close>, 5 books of which 3 available and 2 active loans of which 1
  overdue, the counts are 5, 3, 2 and 1.
\<close>

theorem statistiche_conteggi:
  assumes "list_all (\<lambda>g. g = Riuscita) (take 6 (guasti w))"
      and "\<forall>d\<in>set (db w Libri). scalare ''disponibile'' d"
      and "\<forall>d\<in>set (db w Prestiti). scalare ''stato'' d \<and> scalare ''data_scadenza'' d"
      and "\<forall>d\<in>set (db w Utenti). scalare ''attivo'' d"
  shows "campo (fst (statistiche ora w)) ''totale_libri'' =
           Some (VInt (int (length (db w Libri)))) \<and>
         campo (fst (statistiche ora w)) ''libri_disponibili'' =
           Some (VInt (int (length (filter
             (\<lambda>d. campo d ''disponibile'' = Some (VBool True)) (db w Libri))))) \<and>
         campo (fst (statistiche ora w)) ''prestiti_attivi'' =
           Some (VInt (int (length (filter
             (\<lambda>d. campo d ''stato'' = Some (VStr ''attivo'')) (db w Prestiti))))) \<and>
         campo (fst (statistiche ora w)) ''utenti_registrati'' =
           Some (VInt (int (length (filter
             (\<lambda>d. campo d ''attivo'' = Some (VBool True)) (db w Utenti))))) \<and>
         campo (fst (statistiche ora w)) ''prestiti_scaduti'' =
           Some (VInt (int (length (filter
             (\<lambda>d. campo d ''stato'' = Some (VStr ''attivo'') \<and>
                  (case campo d ''data_scadenza'' of
                     Some (VDate t) \<Rightarrow> tronca_ms t < tronca_ms ora
                   | _ \<Rightarrow> False))
             (db w Prestiti)))))"
proof -
  have n1: "length (filter (soddisfa (testo w) []) (db w Libri)) = length (db w Libri)"
    by (simp add: soddisfa_def)
  have n2: "length (filter (soddisfa (testo w) [(''disponibile'', CEq (VBool True))]) (db w Libri)) =
      length (filter (\<lambda>d. campo d ''disponibile'' = Some (VBool True)) (db w Libri))"
    using assms(2) by (intro conta_cong) (simp add: mongo_eq_scalare)
  have n3: "length (filter (soddisfa (testo w) [(''stato'', CEq (VStr ''attivo''))]) (db w Prestiti)) =
      length (filter (\<lambda>d. campo d ''stato'' = Some (VStr ''attivo'')) (db w Prestiti))"
    using assms(3) by (intro conta_cong) (simp add: mongo_eq_scalare)
  have n4: "length (filter (soddisfa (testo w) [(''attivo'', CEq (VBool True))]) (db w Utenti)) =
      length (filter (\<lambda>d. campo d ''attivo'' = Some (VBool True)) (db w Utenti))"
    using assms(4) by (intro conta_cong) (simp add: mongo_eq_scalare)
  have n5: "length (filter (soddisfa (testo w)
                 [(''stato'', CEq (VStr ''attivo'')), (''data_scadenza'', CLtDate ora)])
              (db w Prestiti)) =
      length (filter (\<lambda>d. campo d ''stato'' = Some (VStr ''attivo'') \<and>
                  (case campo d ''data_scadenza'' of
                     Some (VDate t) \<Rightarrow> tronca_ms t < tronca_ms ora
                   | _ \<Rightarrow> False))
             (db w Prestiti))"
    using assms(3)
    by (intro conta_cong)
       (simp add: soddisfa_def soddisfa_cond_def mongo_eq_scalare mongo_lt_date_scalare)
  from prova_statistiche_riuscita [OF assms(1), of ora] obtain piu w1 where
    "prova_statistiche ora w =
    (Inr [(''totale_libri'', VInt (int (length (filter (soddisfa (testo w) []) (db w Libri))))),
          (''libri_disponibili'', VInt (int (length (filter
              (soddisfa (testo w) [(''disponibile'', CEq (VBool True))]) (db w Libri))))),
          (''prestiti_attivi'', VInt (int (length (filter
              (soddisfa (testo w) [(''stato'', CEq (VStr ''attivo''))]) (db w Prestiti))))),
          (''utenti_registrati'', VInt (int (length (filter
              (soddisfa (testo w) [(''attivo'', CEq (VBool True))]) (db w Utenti))))),
          (''prestiti_scaduti'', VInt (int (length (filter
              (soddisfa (testo w)
                 [(''stato'', CEq (VStr ''attivo'')), (''data_scadenza'', CLtDate ora)])
              (db w Prestiti))))),
          (''libri_piu_prestati'', VArr (map VSub piu))], w1)"
    by blast
  then have "fst (statistiche ora w) =
     [(''totale_libri'', VInt (int (length (db w Libri)))),
      (''libri_disponibili'', VInt (int (length (filter
         (\<lambda>d. campo d ''disponibile'' = Some (VBool True)) (db w Libri))))),
      (''prestiti_attivi'', VInt (int (length (filter
         (\<lambda>d. campo d ''stato'' = Some (VStr ''attivo'')) (db w Prestiti))))),
      (''utenti_registrati'', VInt (int (length (filter
         (\<lambda>d. campo d ''attivo'' = Some (VBool True)) (db w Utenti))))),
      (''prestiti_scaduti'', VInt (int (length (filter
         (\<lambda>d. campo d ''stato'' = Some (VStr ''attivo'') \<and>
              (case campo d ''data_scadenza'' of
                     Some (VDate t) \<Rightarrow> tronca_ms t < tronca_ms ora
                   | _ \<Rightarrow> False))
         (db w Prestiti))))),
      (''libri_piu_prestati'', VArr (map VSub piu))]"
    by (simp only: statistiche_def n1 n2 n3 n4 n5 prod.case sum.case fst_conv)
  then show ?thesis by (simp add: campo_def)
qed


theorem statistiche_conteggi_witness:
  "length (db mondo_statistiche Libri) = 5 \<and>
   campo (fst (statistiche 7000 mondo_statistiche)) ''totale_libri'' = Some (VInt 5) \<and>
   campo (fst (statistiche 7000 mondo_statistiche)) ''libri_disponibili'' = Some (VInt 3) \<and>
   campo (fst (statistiche 7000 mondo_statistiche)) ''prestiti_attivi'' = Some (VInt 2) \<and>
   campo (fst (statistiche 7000 mondo_statistiche)) ''utenti_registrati'' = Some (VInt 1) \<and>
   campo (fst (statistiche 7000 mondo_statistiche)) ''prestiti_scaduti'' = Some (VInt 1)"
proof -
  have g: "list_all (\<lambda>g. g = Riuscita) (take 6 (guasti mondo_statistiche))"
    by (simp add: mondo_statistiche_def)
  have l: "\<forall>d\<in>set (db mondo_statistiche Libri). scalare ''disponibile'' d"
    by (simp add: mondo_statistiche_def libri_statistiche_def scalare_def campo_def)
  have p: "\<forall>d\<in>set (db mondo_statistiche Prestiti).
      scalare ''stato'' d \<and> scalare ''data_scadenza'' d"
    by (simp add: mondo_statistiche_def prestiti_statistiche_def scalare_def campo_def)
  have u: "\<forall>d\<in>set (db mondo_statistiche Utenti). scalare ''attivo'' d"
    by (simp add: mondo_statistiche_def utente_attivo_def scalare_def campo_def)
  from statistiche_conteggi [OF g l p u, of 7000] show ?thesis
    by (simp add: mondo_statistiche_def libri_statistiche_def prestiti_statistiche_def
        utente_attivo_def campo_def tronca_ms_def)
qed

text \<open>
  Claim C7 as stated fails. A loan in state \<open>attivo\<close> due at 2592000001000 is before the
  clock reading 2592000001999, yet the overdue count is 0: the two fall in the same
  millisecond. And a book whose \<open>disponibile\<close> is an array holding true is counted as
  available, though its flag is not the value true.
\<close>

theorem statistiche_stesso_millisecondo:
  "db mondo_millisecondo Prestiti = [prestito_millisecondo] \<and>
   campo prestito_millisecondo ''stato'' = Some (VStr ''attivo'') \<and>
   campo prestito_millisecondo ''data_scadenza'' = Some (VDate 2592000001000) \<and>
   (2592000001000 :: int) < 2592000001999 \<and>
   campo (fst (statistiche 2592000001999 mondo_millisecondo)) ''prestiti_attivi'' =
     Some (VInt 1) \<and>
   campo (fst (statistiche 2592000001999 mondo_millisecondo)) ''prestiti_scaduti'' =
     Some (VInt 0) \<and>
   db mondo_millisecondo Libri = [libro_elenco] \<and>
   campo libro_elenco ''disponibile'' = Some (VArr [VBool True]) \<and>
   campo libro_elenco ''disponibile'' \<noteq> Some (VBool True) \<and>
   campo (fst (statistiche 2592000001999 mondo_millisecondo)) ''libri_disponibili'' =
     Some (VInt 1)"
  by (simp add: statistiche_def prova_statistiche_def count_documents_def aggregate_def
      chiamata_def soddisfa_def soddisfa_cond_def mongo_eq_def mongo_lt_date_def campo_def
      tronca_ms_def mondo_millisecondo_def prestito_millisecondo_def libro_elenco_def)

section \<open>Read-only operations when the store fails\<close>

lemma chiamata_guasti:
  "guasti (snd (chiamata w)) = drop 1 (guasti w)"
  "fst (chiamata w) = Riuscita \<longleftrightarrow> list_all (\<lambda>g. g = Riuscita) (take 1 (guasti w))"
  by (cases "guasti w"; simp add: chiamata_def)+

lemma regolare_chiamata:
  "regolare w (if fst (chiamata w) = Riuscita then Inr x else Inl ConnectionFailure,
               snd (chiamata w))"
  unfolding regolare_def
  by (auto simp: chiamata_guasti intro!: exI [of _ 1])

lemma regolare_puro: "regolare w (x, w)"
  unfolding regolare_def by (auto intro!: exI [of _ 0])

lemma regolare_seq:
  assumes "regolare w (Inr a, w1)" and "regolare w1 (x, w2)"
  shows "regolare w (x, w2)"
proof -
  from assms(1) obtain n where n: "guasti w1 = drop n (guasti w)"
    "list_all (\<lambda>g. g = Riuscita) (take n (guasti w))"
    and f1: "registro w1 = registro w" "db w1 = db w"
    by (auto simp: regolare_def)
  from assms(2) obtain m where m: "guasti w2 = drop m (guasti w1)"
    "x \<noteq> Inl ConnectionFailure \<longrightarrow> list_all (\<lambda>g. g = Riuscita) (take m (guasti w1))"
    and f2: "registro w2 = registro w1" "db w2 = db w1"
    by (auto simp: regolare_def)
  have t: "take (n + m) (guasti w) = take n (guasti w) @ take m (drop n (guasti w))"
    by (simp add: take_add)
  have "guasti w2 = drop (n + m) (guasti w)"
    using n(1) m(1) by (simp add: add.commute)
  moreover have "x \<noteq> Inl ConnectionFailure \<longrightarrow>
      list_all (\<lambda>g. g = Riuscita) (take (n + m) (guasti w))"
    using n m(2) t by simp
  ultimately show ?thesis
    using f1 f2 unfolding regolare_def by (auto intro!: exI [of _ "n + m"])
qed

lemma regolare_bind:
  assumes "regolare w mw"
      and "\<And>a w1. mw = (Inr a, w1) \<Longrightarrow> regolare w1 (k a w1)"
  shows "regolare w (case mw of (Inl e, w1) \<Rightarrow> (Inl e, w1) | (Inr a, w1) \<Rightarrow> k a w1)"
proof (cases mw)
  case (Pair x w1)
  show ?thesis
  proof (cases x)
    case (Inl e)
    with Pair assms(1) show ?thesis by (simp add: regolare_def)
  next
    case (Inr a)
    with Pair assms(1) have "regolare w (Inr a, w1)" by simp
    moreover from Pair Inr have "regolare w1 (k a w1)" by (intro assms(2)) simp
    ultimately have "regolare w (fst (k a w1), snd (k a w1))"
      using regolare_seq [of w a w1 "fst (k a w1)" "snd (k a w1)"] by simp
    with Pair Inr show ?thesis by simp
  qed
qed

lemma regolare_count_documents: "regolare w (count_documents c f w)"
  by (simp only: count_documents_eq regolare_chiamata)

lemma regolare_aggregate: "regolare w (aggregate c pl w)"
  by (simp only: aggregate_eq regolare_chiamata)

lemma regolare_find_one: "regolare w (find_one c f w)"
  by (simp only: find_one_eq regolare_chiamata)

lemma regolare_prova_statistiche: "regolare w (prova_statistiche ora w)"
  unfolding prova_statistiche_def
  apply (rule regolare_bind)
   apply (rule regolare_count_documents)
  apply (rule regolare_bind)
   apply (rule regolare_count_documents)
  apply (rule regolare_bind)
   apply (rule regolare_count_documents)
  apply (rule regolare_bind)
   apply (rule regolare_count_documents)
  apply (rule regolare_bind)
   apply (rule regolare_count_documents)
  apply (rule regolare_bind)
   apply (rule regolare_aggregate)
  apply (rule regolare_puro)
  done

lemma regolare_fallita:
  assumes "regolare w (x, w')" and "fallita w w'"
  shows "x = Inl ConnectionFailure"
proof (rule ccontr)
  assume "x \<noteq> Inl ConnectionFailure"
  with assms(1) obtain n where n: "guasti w' = drop n (guasti w)"
    "list_all (\<lambda>g. g = Riuscita) (take n (guasti w))"
    by (auto simp: regolare_def)
  have "take (length (guasti w) - length (guasti w')) (guasti w) = take n (guasti w)"
    using n(1) by (cases "n \<le> length (guasti w)") simp_all
  with assms(2) n(2) show False
    by (auto simp: fallita_def list_all_iff list_ex_iff)
qed


lemma regolare_Inr: "regolare w (Inr a, w1) \<Longrightarrow> regolare w (y, w1)"
  by (auto simp: regolare_def)

lemma regolare_match_conditions: "regolare w (match_conditions query categoria disponibile w)"
proof (cases "categoria = None \<or> categoria = Some []")
  case True
  then have "\<exists>y. match_conditions query categoria disponibile w = (y, w)"
    by (auto simp: match_conditions_def Let_def split: option.splits)
  then show ?thesis by (auto simp: regolare_puro)
next
  case False
  then obtain nome where c: "categoria = Some nome" "nome \<noteq> []" by auto
  show ?thesis
  proof (cases "fst (chiamata w) = Riuscita")
    case True
    with c have "\<exists>y. match_conditions query categoria disponibile w = (y, snd (chiamata w))"
      by (auto simp: match_conditions_def Let_def find_one_eq split: option.splits sum.splits)
    then obtain y where y: "match_conditions query categoria disponibile w = (y, snd (chiamata w))"
      by blast
    from True regolare_chiamata [of w "[] :: filtro"] have
      "regolare w (Inr ([] :: filtro), snd (chiamata w))"
      by simp
    from regolare_Inr [OF this, of y] y show ?thesis by simp
  next
    case False
    with c have "match_conditions query categoria disponibile w =
        (Inl ConnectionFailure, snd (chiamata w))"
      by (simp add: match_conditions_def Let_def find_one_eq)
    with False regolare_chiamata [of w] show ?thesis by simp
  qed
qed

lemma regolare_ricerca:
  "regolare w (case match_conditions query categoria disponibile w of
                 (Inl e, w1) \<Rightarrow> (Inl e, w1)
               | (Inr m, w1) \<Rightarrow> aggregate Libri (pipeline_ricerca m) w1)"
  by (rule regolare_bind, rule regolare_match_conditions, rule regolare_aggregate)

lemma cerca_libri_corpo:
  "cerca_libri query categoria autore disponibile w =
     (case (case match_conditions query categoria disponibile w of
              (Inl e, w1) \<Rightarrow> (Inl e, w1)
            | (Inr m, w1) \<Rightarrow> aggregate Libri (pipeline_ricerca m) w1) of
        (Inl e, w2) \<Rightarrow> ([], logger_error ''Errore ricerca libri'' e w2)
      | (Inr ds, w2) \<Rightarrow> (ds, w2))"
  by (simp add: cerca_libri_def split: prod.splits sum.splits)

lemma fallita_logger [simp]: "fallita w (logger_error m e w1) = fallita w w1"
  by (simp add: fallita_def)

lemma eccezione_registrata:
  assumes "regolare w xw"
      and "fallita w (snd (case xw of (Inl e, w2) \<Rightarrow> (vuoto, logger_error m e w2)
                                   | (Inr y, w2) \<Rightarrow> (f y, w2)))"
  shows "(case xw of (Inl e, w2) \<Rightarrow> (vuoto, logger_error m e w2) | (Inr y, w2) \<Rightarrow> (f y, w2)) =
           (vuoto, logger_error m ConnectionFailure (snd xw)) \<and>
         registro (snd xw) = registro w \<and> db (snd xw) = db w"
proof -
  obtain x w2 where xw: "xw = (x, w2)" by (cases xw)
  with assms(2) have "fallita w w2" by (cases x) simp_all
  from regolare_fallita [OF assms(1) [unfolded xw] this] have "x = Inl ConnectionFailure" .
  with xw assms(1) show ?thesis by (simp add: regolare_def)
qed

text \<open>
  Claim C8. \<open>cerca_libri\<close> and \<open>statistiche\<close> return plain values, so no exception reaches
  the caller. Whenever one of the round trips the operation made failed, the search
  returns the empty list and the statistics the empty dictionary, the error is logged
  once as the store's exception, and the database is as it was.
\<close>

theorem letture_senza_eccezioni:
  "(fallita w (snd (cerca_libri query categoria autore disponibile w)) \<longrightarrow>
      fst (cerca_libri query categoria autore disponibile w) = [] \<and>
      registro (snd (cerca_libri query categoria autore disponibile w)) =
        registro w @ [(''Errore ricerca libri'', ConnectionFailure)] \<and>
      db (snd (cerca_libri query categoria autore disponibile w)) = db w) \<and>
   (fallita w (snd (statistiche ora w)) \<longrightarrow>
      fst (statistiche ora w) = [] \<and>
      registro (snd (statistiche ora w)) =
        registro w @ [(''Errore statistiche'', ConnectionFailure)] \<and>
      db (snd (statistiche ora w)) = db w)"
proof (intro conjI impI)
  assume f: "fallita w (snd (cerca_libri query categoria autore disponibile w))"
  note c = cerca_libri_corpo [of query categoria autore disponibile w]
  from f have "fallita w (snd (case (case match_conditions query categoria disponibile w of
              (Inl e, w1) \<Rightarrow> (Inl e, w1)
            | (Inr m, w1) \<Rightarrow> aggregate Libri (pipeline_ricerca m) w1) of
        (Inl e, w2) \<Rightarrow> ([], logger_error ''Errore ricerca libri'' e w2)
      | (Inr ds, w2) \<Rightarrow> (ds, w2)))"
    by (simp only: c)
  note e = eccezione_registrata [where vuoto = "[]" and m = "''Errore ricerca libri''"
      and f = "\<lambda>ds. ds", OF regolare_ricerca this]
  from e show "fst (cerca_libri query categoria autore disponibile w) = []"
    by (simp add: c)
  from e show "registro (snd (cerca_libri query categoria autore disponibile w)) =
        registro w @ [(''Errore ricerca libri'', ConnectionFailure)]"
    by (simp add: c)
  from e show "db (snd (cerca_libri query categoria autore disponibile w)) = db w"
    by (simp add: c)
next
  assume f: "fallita w (snd (statistiche ora w))"
  have s: "statistiche ora w =
     (case prova_statistiche ora w of
        (Inl e, w2) \<Rightarrow> ([], logger_error ''Errore statistiche'' e w2)
      | (Inr y, w2) \<Rightarrow> (y, w2))"
    by (simp add: statistiche_def split: prod.splits sum.splits)
  from f have "fallita w (snd (case prova_statistiche ora w of
        (Inl e, w2) \<Rightarrow> ([], logger_error ''Errore statistiche'' e w2)
      | (Inr y, w2) \<Rightarrow> (y, w2)))"
    by (simp only: s)
  note e = eccezione_registrata [where vuoto = "[]" and m = "''Errore statistiche''"
      and f = "\<lambda>y. y", OF regolare_prova_statistiche this]
  from e show "fst (statistiche ora w) = []" by (simp add: s)
  from e show "registro (snd (statistiche ora w)) =
        registro w @ [(''Errore statistiche'', ConnectionFailure)]"
    by (simp add: s)
  from e show "db (snd (statistiche ora w)) = db w" by (simp add: s)
qed


lemma esempio_guasto:
  "cerca_libri None (Some ''Gialli'') None None (mondo_guasto [Riuscita, Rifiutata]) =
     ([], logger_error ''Errore ricerca libri'' ConnectionFailure (mondo_guasto []))"
  "statistiche 7000 (mondo_guasto [Riuscita, Riuscita, RispostaPersa]) =
     ([], logger_error ''Errore statistiche'' ConnectionFailure (mondo_guasto []))"
  by (simp_all add: cerca_libri_def match_conditions_def find_one_def aggregate_def chiamata_def
      statistiche_def prova_statistiche_def count_documents_def mondo_guasto_def mondo_di_def)

lemma mondo_guasto_campi [simp]:
  "guasti (mondo_guasto gs) = gs"
  "registro (mondo_guasto gs) = []"
  by (simp_all add: mondo_guasto_def)

theorem letture_senza_eccezioni_witness:
  "fallita (mondo_guasto [Riuscita, Rifiutata])
     (snd (cerca_libri None (Some ''Gialli'') None None (mondo_guasto [Riuscita, Rifiutata]))) \<and>
   fst (cerca_libri None (Some ''Gialli'') None None (mondo_guasto [Riuscita, Rifiutata])) = [] \<and>
   registro (snd (cerca_libri None (Some ''Gialli'') None None
                    (mondo_guasto [Riuscita, Rifiutata]))) =
     [(''Errore ricerca libri'', ConnectionFailure)] \<and>
   fallita (mondo_guasto [Riuscita, Riuscita, RispostaPersa])
     (snd (statistiche 7000 (mondo_guasto [Riuscita, Riuscita, RispostaPersa]))) \<and>
   fst (statistiche 7000 (mondo_guasto [Riuscita, Riuscita, RispostaPersa])) = [] \<and>
   registro (snd (statistiche 7000 (mondo_guasto [Riuscita, Riuscita, RispostaPersa]))) =
     [(''Errore statistiche'', ConnectionFailure)]"
proof -
  have f1: "fallita (mondo_guasto [Riuscita, Rifiutata])
     (snd (cerca_libri None (Some ''Gialli'') None None (mondo_guasto [Riuscita, Rifiutata])))"
    by (simp add: esempio_guasto(1) fallita_def)
  have f2: "fallita (mondo_guasto [Riuscita, Riuscita, RispostaPersa])
     (snd (statistiche 7000 (mondo_guasto [Riuscita, Riuscita, RispostaPersa])))"
    by (simp add: esempio_guasto(2) fallita_def)
  from letture_senza_eccezioni [of "mondo_guasto [Riuscita, Rifiutata]" None "Some ''Gialli''"
      None None 7000] f1
    letture_senza_eccezioni [of "mondo_guasto [Riuscita, Riuscita, RispostaPersa]" None None
      None None 7000] f2
  show ?thesis by simp
qed


end
